theory Spec2Isabelle
  imports Main
begin

section \<open>Python values\<close>

text \<open>
  Exceptions are values: a class and the text that \<^verbatim>\<open>str(e)\<close> gives. Every class
  below is a subclass of \<^verbatim>\<open>Exception\<close>, so an \<^verbatim>\<open>except Exception\<close> handler
  catches each of them. A function that can raise returns \<open>exn + 'a\<close>, with \<open>Inl\<close> for
  the exception that reaches its caller.
\<close>

datatype exn_class =
  PlaywrightTimeoutError | ValueError | FileNotFoundError | CsvError | OverflowError | OtherError

datatype exn = Exn (exn_class: exn_class) (str: string)

text \<open>
  Strings are lists of code points below 256. \<^verbatim>\<open>str.strip()\<close> removes the characters
  for which \<^verbatim>\<open>str.isspace\<close> holds from both ends.
\<close>

definition isspace :: "char \<Rightarrow> bool" where
  "isspace c =
     (let n = (of_char c :: nat)
      in (9 \<le> n \<and> n \<le> 13) \<or> (28 \<le> n \<and> n \<le> 32) \<or> n = 133 \<or> n = 160)"

definition strip :: "string \<Rightarrow> string" where
  "strip s = rev (dropWhile isspace (rev (dropWhile isspace s)))"

text \<open>The slice \<^verbatim>\<open>xs[:n]\<close>: a negative \<open>n\<close> counts from the end.\<close>

definition py_slice_to :: "'a list \<Rightarrow> int \<Rightarrow> 'a list" where
  "py_slice_to xs n =
     (if 0 \<le> n then take (nat n) xs else take (nat (int (length xs) + n)) xs)"

text \<open>
  \<^verbatim>\<open>math.ceil(total_products / 2)\<close>. The operator \<^verbatim>\<open>/\<close> is true division: its
  result is the double nearest to the quotient (ties to even), and
  \<^verbatim>\<open>OverflowError\<close> when that double would not be finite. A double that is a
  multiple of one half is represented by its numerator over 2: for an integer of more
  than 53 bits the numerator is rounded to a multiple of \<open>2 ^ (bits - 53)\<close>.
\<close>

function bit_length :: "int \<Rightarrow> nat" where
  "bit_length n = (if n \<le> 0 then 0 else Suc (bit_length (n div 2)))"
  by pat_completeness auto
termination
  by (relation "measure nat") auto

declare bit_length.simps [simp del]

definition round_half_even :: "int \<Rightarrow> nat \<Rightarrow> int" where
  "round_half_even m k =
     (let q = m div 2 ^ k; r = m mod 2 ^ k
      in if 2 ^ k < 2 * r \<or> (2 * r = 2 ^ k \<and> odd q) then (q + 1) * 2 ^ k else q * 2 ^ k)"

definition true_div_2 :: "int \<Rightarrow> exn + int" where
  "true_div_2 n =
     (let m = \<bar>n\<bar>;
          h = round_half_even m (bit_length m - 53)
      in if 2 ^ 1025 \<le> h
         then Inl (Exn OverflowError ''integer division result too large for a float'')
         else Inr (if n < 0 then - h else h))"

definition math_ceil_halves :: "int \<Rightarrow> int" where
  "math_ceil_halves h = - ((- h) div 2)"

definition ceil_half :: "int \<Rightarrow> exn + int" where
  "ceil_half n = (case true_div_2 n of Inl e \<Rightarrow> Inl e | Inr h \<Rightarrow> Inr (math_ceil_halves h))"

section \<open>Source crawler (agent\_scraper.py)\<close>

text \<open>
  A file is absent, present with its content, or present but raising when it is opened
  or read.
\<close>

datatype 'a stored = Absent | Damaged exn | Content 'a

text \<open>
  The outside world of one crawler. A listing page either raises before its links are
  read, or shows its links (each \<^verbatim>\<open>get_attribute('href')\<close> raises or gives the
  attribute, \<open>None\<close> when missing) and a state of the Next control. An attempt at an
  item page either raises or gives the three elements found; discovery lists no URL
  twice, so the URL and the number of the attempt identify a navigation of one crawl.
\<close>

datatype nav = NoNext | Next | NavError exn

datatype listing = ListingError exn | Listing "(exn + string option) list" nav

datatype element = NoElement | Element "string option"

datatype attempt = Raises exn | Loaded element element element

record site =
  urls_file :: "string list stored"
  save_error :: "exn option"
  launch_error :: "exn option"
  listing_pages :: "nat \<Rightarrow> listing"
  item_page :: "string \<Rightarrow> nat \<Rightarrow> attempt"

fun get_text_content :: "element \<Rightarrow> string" where
  "get_text_content NoElement = ''N/A''"
| "get_text_content (Element None) = ''N/A''"
| "get_text_content (Element (Some content)) =
     (if content = [] then ''N/A'' else strip content)"

definition load_scraped_urls :: "string list stored \<Rightarrow> exn + string set" where
  "load_scraped_urls f =
     (case f of
        Absent \<Rightarrow> Inr {}
      | Damaged e \<Rightarrow> Inl e
      | Content lines \<Rightarrow> Inr (set (map strip lines)))"

definition startswith :: "string \<Rightarrow> string \<Rightarrow> bool" where
  "startswith s p = (take (length p) s = p)"

text \<open>
  The \<^verbatim>\<open>for link in links\<close> loop of the discovery phase. It stops (\<^verbatim>\<open>break\<close>) as
  soon as \<open>max_products\<close> URLs are known.
\<close>

fun scan_links ::
  "string \<Rightarrow> int \<Rightarrow> string set \<Rightarrow> (exn + string option) list \<Rightarrow> string list
     \<Rightarrow> exn + string list" where
  "scan_links base max_products scraped_urls [] product_urls = Inr product_urls"
| "scan_links base max_products scraped_urls (Inl e # links) product_urls = Inl e"
| "scan_links base max_products scraped_urls (Inr None # links) product_urls =
     scan_links base max_products scraped_urls links product_urls"
| "scan_links base max_products scraped_urls (Inr (Some h) # links) product_urls =
     (if h = [] then scan_links base max_products scraped_urls links product_urls
      else
        let href = (if \<not> startswith h ''http'' then base @ h else h)
        in if href \<notin> set product_urls \<and> href \<notin> scraped_urls
           then if max_products \<le> int (length (product_urls @ [href]))
                then Inr (product_urls @ [href])
                else scan_links base max_products scraped_urls links (product_urls @ [href])
           else scan_links base max_products scraped_urls links product_urls)"

text \<open>
  The pagination loop \<^verbatim>\<open>while len(product_urls) < max_products\<close>. Nothing in the
  source bounds the number of listing pages, so the loop is given fuel: \<open>None\<close> means
  that it was still running after that many pages.
\<close>

fun discover ::
  "nat \<Rightarrow> (nat \<Rightarrow> listing) \<Rightarrow> nat \<Rightarrow> string \<Rightarrow> int \<Rightarrow> string set \<Rightarrow> string list
     \<Rightarrow> (exn + string list) option" where
  "discover fuel pages i base max_products scraped_urls product_urls =
     (if \<not> int (length product_urls) < max_products then Some (Inr product_urls)
      else case fuel of
        0 \<Rightarrow> None
      | Suc fuel' \<Rightarrow>
          (case pages i of
             ListingError e \<Rightarrow> Some (Inl e)
           | Listing links next_btn \<Rightarrow>
               (case scan_links base max_products scraped_urls links product_urls of
                  Inl e \<Rightarrow> Some (Inl e)
                | Inr product_urls' \<Rightarrow>
                    if max_products \<le> int (length product_urls') then Some (Inr product_urls')
                    else case next_btn of
                      NavError e \<Rightarrow> Some (Inl e)
                    | NoNext \<Rightarrow> Some (Inr product_urls')
                    | Next \<Rightarrow>
                        discover fuel' pages (Suc i) base max_products scraped_urls
                          product_urls')))"

text \<open>
  The retry loop \<^verbatim>\<open>for attempt in range(2)\<close> with its \<^verbatim>\<open>else\<close> branch: a timeout
  goes to the next attempt, any other exception abandons the URL, and the loop's
  \<^verbatim>\<open>else\<close> runs when no attempt is left.
\<close>

datatype outcome = Scraped "string list" | Exhausted | Abandoned exn

fun extract_item :: "(nat \<Rightarrow> attempt) \<Rightarrow> string \<Rightarrow> nat list \<Rightarrow> outcome" where
  "extract_item page source [] = Exhausted"
| "extract_item page source (a # as) =
     (case page a of
        Loaded title price description \<Rightarrow>
          Scraped [get_text_content title, get_text_content price,
                   get_text_content description, source]
      | Raises e \<Rightarrow>
          if exn_class e = PlaywrightTimeoutError then extract_item page source as
          else Abandoned e)"

text \<open>
  The loop over the discovered URLs, on the pair \<open>(products_data, scraped_urls)\<close>
  that the source mutates in place.
\<close>

fun process_urls ::
  "(string \<Rightarrow> nat \<Rightarrow> attempt) \<Rightarrow> string \<Rightarrow> string list
     \<Rightarrow> string list list \<times> string set \<Rightarrow> string list list \<times> string set" where
  "process_urls item source [] st = st"
| "process_urls item source (url # urls) (products_data, scraped_urls) =
     (case extract_item (item url) source [0, 1] of
        Scraped row \<Rightarrow>
          process_urls item source urls (products_data @ [row], insert url scraped_urls)
      | Exhausted \<Rightarrow> process_urls item source urls (products_data, scraped_urls)
      | Abandoned e \<Rightarrow> process_urls item source urls (products_data, scraped_urls))"

text \<open>
  The body of \<^verbatim>\<open>try: ... except Exception\<close>: the handler only prints, so an
  exception raised while the browser starts or during discovery leaves
  \<open>products_data\<close> empty and \<open>scraped_urls\<close> as loaded. The retry loop catches what an
  item page raises, and an exception of the final \<^verbatim>\<open>browser.close()\<close> is caught with
  both values already built, so neither changes the pair.
\<close>

definition browser_session ::
  "string \<Rightarrow> string \<Rightarrow> site \<Rightarrow> nat \<Rightarrow> int \<Rightarrow> string set
     \<Rightarrow> (string list list \<times> string set) option" where
  "browser_session base source env fuel max_products scraped_urls =
     (case launch_error env of
        Some e \<Rightarrow> Some ([], scraped_urls)
      | None \<Rightarrow>
          (case discover fuel (listing_pages env) 0 base max_products scraped_urls [] of
             None \<Rightarrow> None
           | Some (Inl e) \<Rightarrow> Some ([], scraped_urls)
           | Some (Inr product_urls) \<Rightarrow>
               Some (process_urls (item_page env) source
                       (py_slice_to product_urls max_products) ([], scraped_urls))))"

text \<open>
  What one crawl gives: the returned \<open>products_data\<close> and the set that
  \<^verbatim>\<open>save_scraped_urls\<close> wrote. Loading and saving stand outside the \<^verbatim>\<open>try\<close>. The
  \<^verbatim>\<open>headless\<close> flag only changes how the browser is launched, which \<open>launch_error\<close>
  covers.
\<close>

record crawl =
  products_data :: "string list list"
  scraped_urls :: "string set"

definition scrape_site ::
  "string \<Rightarrow> string \<Rightarrow> site \<Rightarrow> nat \<Rightarrow> int \<Rightarrow> (exn + crawl) option" where
  "scrape_site base source env fuel max_products =
     (case load_scraped_urls (urls_file env) of
        Inl e \<Rightarrow> Some (Inl e)
      | Inr loaded \<Rightarrow>
          (case browser_session base source env fuel max_products loaded of
             None \<Rightarrow> None
           | Some (data, visited) \<Rightarrow>
               (case save_error env of
                  Some e \<Rightarrow> Some (Inl e)
                | None \<Rightarrow> Some (Inr \<lparr>products_data = data, scraped_urls = visited\<rparr>))))"

definition scrape_breakout :: "site \<Rightarrow> nat \<Rightarrow> int \<Rightarrow> (exn + crawl) option" where
  "scrape_breakout = scrape_site ''https://breakout.com.pk'' ''Breakout''"

definition scrape_rastah :: "site \<Rightarrow> nat \<Rightarrow> int \<Rightarrow> (exn + crawl) option" where
  "scrape_rastah = scrape_site ''https://pk.rastah.co'' ''Rastah''"

declare discover.simps [simp del]

section \<open>Crawl coordinator (agent\_scraper.py)\<close>

text \<open>
  The world around the coordinator and the pipeline: the two sites, which of the two
  crawls finishes first when they run side by side, the CSV and text files by path,
  the exception (if any) that opening a path for writing raises, what
  \<^verbatim>\<open>get_latest_csv_files\<close> finds or raises (it reads modification times, which the
  file model does not hold), the text-generation call by model name and prompt (its
  result is the reply text; constructing the client is taken to succeed), the text of
  \<^verbatim>\<open>traceback.format_exc()\<close> and the clock read for the n-th log entry. Paths are
  relative to the directory the process runs in, which is taken to be the one that
  holds the \<^verbatim>\<open>agents\<close> package, so that the paths built from \<^verbatim>\<open>__file__\<close> name the same
  files.
\<close>

type_synonym csv_store = "string \<Rightarrow> string list list stored"

type_synonym text_store = "string \<Rightarrow> string stored"

record world =
  breakout_site :: site
  rastah_site :: site
  breakout_finishes_first :: bool
  csv_files :: csv_store
  text_files :: text_store
  write_error :: "string \<Rightarrow> exn option"
  latest_csv_files :: "exn + string list"
  llm_invoke :: "string \<Rightarrow> string \<Rightarrow> exn + string"
  format_exc :: string
  isoformat_now :: "nat \<Rightarrow> string"

definition csv_header :: "string list" where
  "csv_header = [''Product'', ''Price'', ''Description'', ''Source'']"

text \<open>
  \<^verbatim>\<open>save_to_csv\<close> writes below \<^verbatim>\<open>data/\<close>, whatever the file name holds. A write that
  raises leaves the store as it was.
\<close>

definition save_to_csv ::
  "(string \<Rightarrow> exn option) \<Rightarrow> string list list \<Rightarrow> string \<Rightarrow> csv_store
     \<Rightarrow> exn option \<times> csv_store" where
  "save_to_csv werr rows filename files =
     (let filepath = ''data/'' @ filename
      in case werr filepath of
           Some e \<Rightarrow> (Some e, files)
         | None \<Rightarrow> (None, files(filepath := Content (csv_header # rows))))"

text \<open>
  \<^verbatim>\<open>asyncio.gather\<close> of the two crawler tasks, which share no state: both results are
  needed, and an exception of either task is raised to the caller. When both tasks
  raise, the caller gets the exception that is raised first in time; the first
  argument says whether that is the one of the first task.
\<close>

definition gather ::
  "bool \<Rightarrow> (exn + 'a) option \<Rightarrow> (exn + 'b) option \<Rightarrow> (exn + 'a \<times> 'b) option" where
  "gather first_raises_first a b =
     (case a of
        Some (Inl e) \<Rightarrow>
          (case b of
             Some (Inl e') \<Rightarrow> Some (Inl (if first_raises_first then e else e'))
           | _ \<Rightarrow> Some (Inl e))
      | Some (Inr x) \<Rightarrow>
          (case b of
             Some (Inl e) \<Rightarrow> Some (Inl e)
           | Some (Inr y) \<Rightarrow> Some (Inr (x, y))
           | None \<Rightarrow> None)
      | None \<Rightarrow>
          (case b of
             Some (Inl e) \<Rightarrow> Some (Inl e)
           | _ \<Rightarrow> None))"

text \<open>
  A crawler raises either at its first step, when it loads the visited-URL file, or at
  its last, when it saves it. The Breakout task is started first, so its exception comes
  first when it raises on loading; otherwise that of Rastah comes first when Rastah
  raises on loading; and when both raise on saving, the crawl that finishes first
  raises first.
\<close>

definition raises_on_load :: "site \<Rightarrow> bool" where
  "raises_on_load env = (case urls_file env of Damaged e \<Rightarrow> True | _ \<Rightarrow> False)"

definition breakout_raises_first :: "world \<Rightarrow> bool" where
  "breakout_raises_first w =
     (raises_on_load (breakout_site w)
      \<or> (\<not> raises_on_load (rastah_site w) \<and> breakout_finishes_first w))"

record summary =
  total_scraped :: nat
  breakout_count :: nat
  rastah_count :: nat
  data :: "string list list"
  files :: "(string \<times> string) list"

text \<open>
  The handler of \<^verbatim>\<open>scrape_all_products\<close> prints and re-raises, so every exception
  of the body reaches the caller. The result comes with the CSV files as they are
  afterwards.
\<close>

definition scrape_all_products ::
  "world \<Rightarrow> nat \<Rightarrow> int \<Rightarrow> ((exn + summary) \<times> csv_store) option" where
  "scrape_all_products w fuel total_products =
     (case ceil_half total_products of
        Inl e \<Rightarrow> Some (Inl e, csv_files w)
      | Inr per_source \<Rightarrow>
          (case gather (breakout_raises_first w)
                  (scrape_breakout (breakout_site w) fuel per_source)
                  (scrape_rastah (rastah_site w) fuel per_source) of
             None \<Rightarrow> None
           | Some (Inl e) \<Rightarrow> Some (Inl e, csv_files w)
           | Some (Inr (b, r)) \<Rightarrow>
               (let breakout_data = products_data b;
                    rastah_data = products_data r;
                    all_data = breakout_data @ rastah_data;
                    final_data = py_slice_to all_data total_products
                in case save_to_csv (write_error w) breakout_data ''breakout_products.csv''
                          (csv_files w) of
                     (Some e, fs1) \<Rightarrow> Some (Inl e, fs1)
                   | (None, fs1) \<Rightarrow>
                       (case save_to_csv (write_error w) rastah_data ''rastah_products.csv''
                               fs1 of
                          (Some e, fs2) \<Rightarrow> Some (Inl e, fs2)
                        | (None, fs2) \<Rightarrow>
                            (case save_to_csv (write_error w) final_data ''all_products.csv''
                                    fs2 of
                               (Some e, fs3) \<Rightarrow> Some (Inl e, fs3)
                             | (None, fs3) \<Rightarrow>
                                 Some (Inr \<lparr>total_scraped = length final_data,
                                            breakout_count = length breakout_data,
                                            rastah_count = length rastah_data,
                                            data = final_data,
                                            files = [(''breakout'', ''data/breakout_products.csv''),
                                                     (''rastah'', ''data/rastah_products.csv''),
                                                     (''all'', ''data/all_products.csv'')]\<rparr>,
                                       fs3))))))"

section \<open>Analysis (agent\_analysis.py)\<close>

definition squote :: "string \<Rightarrow> string" where
  "squote s = [CHR 0x27] @ s @ [CHR 0x27]"

fun str_nat :: "nat \<Rightarrow> string" where
  "str_nat n =
     (if n < 10 then [''0123456789'' ! n]
      else str_nat (n div 10) @ [''0123456789'' ! (n mod 10)])"

declare str_nat.simps [simp del]

text \<open>\<^verbatim>\<open>Path(p).name\<close> of a path without a trailing slash.\<close>

definition path_name :: "string \<Rightarrow> string" where
  "path_name p = rev (takeWhile (\<lambda>c. c \<noteq> CHR ''/'') (rev p))"

text \<open>
  \<^verbatim>\<open>csv.DictReader\<close>: the first row holds the field names, empty rows are skipped,
  and a product is a data row together with the field names. \<^verbatim>\<open>product.get(key, '')\<close>
  inside an f-string: the last field of that name decides, a field beyond the end of
  the row is \<^verbatim>\<open>None\<close>, a name that is no field gives the default.
\<close>

type_synonym product = "string list \<times> string list"

definition dict_reader :: "string list list \<Rightarrow> product list" where
  "dict_reader rows =
     (case rows of
        [] \<Rightarrow> []
      | fieldnames # rest \<Rightarrow> map (\<lambda>row. (fieldnames, row)) (filter (\<lambda>row. row \<noteq> []) rest))"

definition get_field :: "product \<Rightarrow> string \<Rightarrow> string" where
  "get_field product key =
     (case product of (fieldnames, row) \<Rightarrow>
        (case map_of (rev (zip fieldnames
                 (map Some row @ replicate (length fieldnames - length row) None))) key of
           None \<Rightarrow> []
         | Some None \<Rightarrow> ''None''
         | Some (Some v) \<Rightarrow> v))"

definition no_data_msg :: "string \<Rightarrow> string" where
  "no_data_msg name =
     ''The file '' @ name @ '' exists but contains no product data. '' @
     ''This might indicate an issue with the scraping process. '' @
     ''Try running the scraper again to collect fresh data.''"

definition not_found_msg :: "string \<Rightarrow> string" where
  "not_found_msg name =
     ''Could not find the file '' @ name @ ''. '' @
     ''The data file might have been moved or deleted. '' @
     ''Please run the scraper again to generate new data files.''"

definition corrupted_msg :: "string \<Rightarrow> string" where
  "corrupted_msg name =
     ''Error reading '' @ name @ ''. '' @
     ''The file appears to be corrupted or in an incorrect format. '' @
     ''Try running the scraper again to generate fresh data files.''"

definition no_products_msg :: string where
  "no_products_msg =
     ''No product data found in any of the files. '' @
     ''This might indicate an issue with the scraping process. '' @
     ''Please try running the scraper again with different parameters.''"

text \<open>
  The loop of \<^verbatim>\<open>load_csv_products\<close>. The \<^verbatim>\<open>ValueError\<close> for a file without
  products is raised inside the \<^verbatim>\<open>try\<close>, whose handlers are for
  \<^verbatim>\<open>FileNotFoundError\<close> and \<^verbatim>\<open>csv.Error\<close> only; any other exception passes through.
\<close>

fun load_files :: "csv_store \<Rightarrow> string list \<Rightarrow> product list \<Rightarrow> exn + product list" where
  "load_files store [] all_products = Inr all_products"
| "load_files store (file_path # rest) all_products =
     (case store file_path of
        Absent \<Rightarrow> Inl (Exn ValueError (not_found_msg (path_name file_path)))
      | Damaged e \<Rightarrow>
          if exn_class e = FileNotFoundError
          then Inl (Exn ValueError (not_found_msg (path_name file_path)))
          else if exn_class e = CsvError
          then Inl (Exn ValueError (corrupted_msg (path_name file_path)))
          else Inl e
      | Content rows \<Rightarrow>
          (let products = dict_reader rows
           in if products = [] then Inl (Exn ValueError (no_data_msg (path_name file_path)))
              else load_files store rest (all_products @ products)))"

definition load_csv_products :: "csv_store \<Rightarrow> string list \<Rightarrow> exn + product list" where
  "load_csv_products store file_paths =
     (case load_files store file_paths [] of
        Inl e \<Rightarrow> Inl e
      | Inr all_products \<Rightarrow>
          if all_products = [] then Inl (Exn ValueError no_products_msg) else Inr all_products)"

text \<open>
  \<^verbatim>\<open>clean_llm_output\<close>. The first substitution removes, from left to right, each
  \<^verbatim>\<open><think>\<close> up to the nearest following \<^verbatim>\<open></think>\<close>, letters in either case; the
  second turns every run of three or more newlines into two.
\<close>

definition lower :: "char \<Rightarrow> char" where
  "lower c =
     (let n = (of_char c :: nat) in if 65 \<le> n \<and> n \<le> 90 then char_of (n + 32) else c)"

definition istartswith :: "string \<Rightarrow> string \<Rightarrow> bool" where
  "istartswith s p = (map lower (take (length p) s) = map lower p)"

fun close_offset :: "string \<Rightarrow> nat option" where
  "close_offset [] = None"
| "close_offset (c # cs) =
     (if istartswith (c # cs) ''</think>'' then Some 0
      else case close_offset cs of None \<Rightarrow> None | Some k \<Rightarrow> Some (Suc k))"

text \<open>The first argument counts the characters of a match still to be dropped.\<close>

fun remove_think :: "nat \<Rightarrow> string \<Rightarrow> string" where
  "remove_think n [] = []"
| "remove_think (Suc n) (c # cs) = remove_think n cs"
| "remove_think 0 (c # cs) =
     (if istartswith (c # cs) ''<think>''
      then case close_offset (drop 7 (c # cs)) of
             Some k \<Rightarrow> remove_think (6 + k + 8) cs
           | None \<Rightarrow> c # remove_think 0 cs
      else c # remove_think 0 cs)"

text \<open>The first argument counts the newlines of the run being read.\<close>

fun collapse_newlines :: "nat \<Rightarrow> string \<Rightarrow> string" where
  "collapse_newlines n [] = replicate (min n 2) CHR 0x0A"
| "collapse_newlines n (c # cs) =
     (if c = CHR 0x0A then collapse_newlines (Suc n) cs
      else replicate (min n 2) CHR 0x0A @ c # collapse_newlines 0 cs)"

definition clean_llm_output :: "string \<Rightarrow> string" where
  "clean_llm_output text = strip (collapse_newlines 0 (remove_think 0 text))"

definition analysis_model :: string where
  "analysis_model = ''deepseek-r1-distill-llama-70b''"

definition analysis_path :: string where
  "analysis_path = ''data/deep_analysis.txt''"

definition analysis_prompt :: "product list \<Rightarrow> string" where
  "analysis_prompt products =
     ''You are a market research analyst. Given the following product data from multiple e-commerce sites, '' @
     ''perform a deep analysis including: internal product comparison, cross-site comparison, market research, and trend identification. '' @
     ''Be thorough and analytical.\<newline>\<newline>'' @
     ''Product Data:\<newline>'' @
     concat (map (\<lambda>product.
        ''- Name: '' @ get_field product ''Product'' @ ''\<newline>  Price: '' @ get_field product ''Price'' @
        ''\<newline>  Description: '' @ get_field product ''Description'' @ ''\<newline>'') products) @
     ''\<newline>Your analysis should include:\<newline>'' @
     ''- Comparison of products (features, price, uniqueness) across all sites\<newline>'' @
     ''- Identification of market trends\<newline>'' @
     ''- Insights about product positioning and opportunities\<newline>'' @
     ''- Any notable patterns or outliers\<newline>'' @
     ''Provide a detailed, structured report.''"

definition not_enough_msg :: "nat \<Rightarrow> string" where
  "not_enough_msg n =
     ''Not enough product data for meaningful analysis. '' @
     ''Found only '' @ str_nat n @ '' product(s). '' @
     ''Please run the scraper to collect more product data.''"

definition model_error_msg :: "exn \<Rightarrow> string" where
  "model_error_msg e =
     ''Error during analysis with the AI model. '' @
     ''This might be due to API limits or connectivity issues. '' @
     ''Technical details: '' @ str e"

definition save_error_msg :: "exn \<Rightarrow> string" where
  "save_error_msg e =
     ''Error saving analysis results to file. '' @
     ''Please check if the data directory exists and is writable. '' @
     ''Technical details: '' @ str e"

definition unexpected_msg :: "exn \<Rightarrow> string" where
  "unexpected_msg e =
     ''An unexpected error occurred during analysis. '' @
     ''This might be due to system issues or invalid data. '' @
     ''Technical details: '' @ str e"

text \<open>The body of the outer \<^verbatim>\<open>try\<close> of \<^verbatim>\<open>analyze_products\<close>, with the text files afterwards.\<close>

definition analyze_body :: "world \<Rightarrow> string list option \<Rightarrow> (exn + string) \<times> text_store" where
  "analyze_body w file_paths =
     (case (case file_paths of Some ps \<Rightarrow> Inr ps | None \<Rightarrow> latest_csv_files w) of
        Inl e \<Rightarrow> (Inl e, text_files w)
      | Inr paths_to_analyze \<Rightarrow>
          (case load_csv_products (csv_files w) paths_to_analyze of
             Inl e \<Rightarrow> (Inl e, text_files w)
           | Inr products \<Rightarrow>
               if length products < 2
               then (Inl (Exn ValueError (not_enough_msg (length products))), text_files w)
               else
                 (case llm_invoke w analysis_model (analysis_prompt products) of
                    Inl e \<Rightarrow> (Inl (Exn ValueError (model_error_msg e)), text_files w)
                  | Inr response \<Rightarrow>
                      (let result = clean_llm_output response
                       in case write_error w analysis_path of
                            Some e \<Rightarrow> (Inl (Exn ValueError (save_error_msg e)), text_files w)
                          | None \<Rightarrow>
                              (Inr result, (text_files w)(analysis_path := Content result))))))"

text \<open>
  The two outer handlers: a \<^verbatim>\<open>ValueError\<close> is raised again as it is, any other
  exception is wrapped in a \<^verbatim>\<open>ValueError\<close>.
\<close>

definition analyze_products :: "world \<Rightarrow> string list option \<Rightarrow> (exn + string) \<times> text_store" where
  "analyze_products w file_paths =
     (case analyze_body w file_paths of
        (Inl e, ts) \<Rightarrow>
          (if exn_class e = ValueError then Inl e else Inl (Exn ValueError (unexpected_msg e)), ts)
      | (Inr analysis, ts) \<Rightarrow> (Inr analysis, ts))"

definition run_deep_analysis :: "world \<Rightarrow> string list \<Rightarrow> (exn + string) \<times> text_store" where
  "run_deep_analysis w csv_paths =
     (let paths_list = (if csv_paths \<noteq> [] then Some csv_paths else None)
      in case analyze_products w paths_list of
           (Inl e, ts) \<Rightarrow>
             (Inl (Exn ValueError (''Failed to complete the analysis process. Error: '' @ str e)), ts)
         | (Inr analysis, ts) \<Rightarrow> (Inr analysis, ts))"

section \<open>Report and question answering (report\_generator.py, qa\_chatbot.py)\<close>

definition report_model :: string where
  "report_model = ''meta-llama/llama-4-maverick-17b-128e-instruct''"

definition report_path :: string where
  "report_path = ''data/generated_report.txt''"

definition report_prompt :: "string \<Rightarrow> string" where
  "report_prompt analysis_content =
     ''You are a senior business analyst. Based on the following market analysis, generate a comprehensive business report. '' @
     ''The report should be well-structured, visually appealing, and suitable for presentation to executives. '' @
     ''Use clear section headings, bullet points, and concise language. Include:\<newline>'' @
     ''- Executive Summary\<newline>'' @
     ''- Key Findings (with bullet points)\<newline>'' @
     ''- Market Trends\<newline>'' @
     ''- Product Positioning & Opportunities\<newline>'' @
     ''- Notable Patterns & Outliers\<newline>'' @
     ''- Actionable Recommendations\<newline>'' @
     ''- Conclusion\<newline>'' @
     ''Format the report for easy reading. Use bold for section titles and bullet points for lists.'' @
     ''\<newline>\<newline>Market Analysis Data:\<newline>'' @ analysis_content @
     ''\<newline>\<newline>Write the business report below:''"

text \<open>
  \<^verbatim>\<open>generate_report\<close> handles each of its three failures by returning a message, so
  its result is always a string.
\<close>

definition generate_report :: "world \<Rightarrow> string \<times> text_store" where
  "generate_report w =
     (case text_files w analysis_path of
        Absent \<Rightarrow> (''Analysis file not found. Please run market analysis first.'', text_files w)
      | Damaged e \<Rightarrow>
          (if exn_class e = FileNotFoundError
           then ''Analysis file not found. Please run market analysis first.''
           else ''Error reading analysis file: '' @ str e, text_files w)
      | Content text \<Rightarrow>
          (case llm_invoke w report_model (report_prompt (strip text)) of
             Inl e \<Rightarrow> (''Error generating report: '' @ str e, text_files w)
           | Inr response \<Rightarrow>
               (let report = strip response
                in case write_error w report_path of
                     Some e \<Rightarrow> (''Error saving report: '' @ str e, text_files w)
                   | None \<Rightarrow> (report, (text_files w)(report_path := Content report)))))"

definition qa_model :: string where
  "qa_model = ''moonshotai/kimi-k2-instruct''"

definition qa_prompt :: "string \<Rightarrow> string \<Rightarrow> string" where
  "qa_prompt analysis_context question =
     ''You are a market research assistant. Use ONLY the following analysis as context to answer the user's question. '' @
     ''If the answer is not in the analysis, say 'The analysis does not provide information on that.'\<newline>'' @
     ''Respond in a professional, direct, and confident manner.\<newline>'' @
     ''Analysis Context:\<newline>'' @ analysis_context @ ''\<newline>\<newline>'' @
     ''User Question: '' @ question @ ''\<newline>'' @
     ''Answer:''"

text \<open>
  \<^verbatim>\<open>qa_chatbot\<close> returns a closure: either the constant answer for a missing
  analysis, or \<^verbatim>\<open>answer_question\<close> holding the analysis text it read.
\<close>

datatype chatbot = NoAnalysis | AnswerQuestion string

definition qa_chatbot :: "world \<Rightarrow> exn + chatbot" where
  "qa_chatbot w =
     (case text_files w analysis_path of
        Absent \<Rightarrow> Inr NoAnalysis
      | Damaged e \<Rightarrow> Inl e
      | Content text \<Rightarrow> Inr (AnswerQuestion (strip text)))"

fun answer_question :: "world \<Rightarrow> chatbot \<Rightarrow> string \<Rightarrow> exn + string" where
  "answer_question w NoAnalysis question =
     Inr ''No analysis report found. Please run the market analysis first.''"
| "answer_question w (AnswerQuestion analysis_context) question =
     (case llm_invoke w qa_model (qa_prompt analysis_context question) of
        Inl e \<Rightarrow> Inl e
      | Inr response \<Rightarrow> Inr (strip response))"

section \<open>Pipeline (langgraph\_flow.py)\<close>

text \<open>
  The state is the typed dictionary \<^verbatim>\<open>PipelineState\<close> with every declared key present.
  \<open>scraped_data\<close> is a dictionary from source name to rows, and a message is a role
  with its content.
\<close>

record PipelineState =
  question :: string
  max_products :: int
  headless :: bool
  scraped_data :: "(string \<times> string list list) list"
  analysis_results :: string
  report :: "string option"
  messages :: "(string \<times> string) list"
  progress_status :: string
  progress_log :: "string list"
  status :: string
  error :: "string option"

definition log_progress :: "world \<Rightarrow> PipelineState \<Rightarrow> string \<Rightarrow> PipelineState" where
  "log_progress w state message =
     state\<lparr>progress_log := progress_log state @
        [''['' @ isoformat_now w (length (progress_log state)) @ ''] '' @ message]\<rparr>"

text \<open>
  The handler that ends each of the four stage functions, which differ in the name
  that starts the message.
\<close>

definition stage_error :: "string \<Rightarrow> world \<Rightarrow> PipelineState \<Rightarrow> exn \<Rightarrow> PipelineState" where
  "stage_error agent w state e =
     (let error_msg = agent @ '' agent error: '' @ str e @ ''\<newline>'' @ format_exc w
      in (log_progress w state error_msg)\<lparr>error := Some error_msg, status := ''failed''\<rparr>)"

definition path_exists :: "(string \<Rightarrow> 'a stored) \<Rightarrow> string \<Rightarrow> bool" where
  "path_exists store path = (store path \<noteq> Absent)"

definition read_file :: "(string \<Rightarrow> 'a stored) \<Rightarrow> string \<Rightarrow> exn + 'a" where
  "read_file store path =
     (case store path of
        Absent \<Rightarrow>
          Inl (Exn FileNotFoundError (''[Errno 2] No such file or directory: '' @ squote path))
      | Damaged e \<Rightarrow> Inl e
      | Content x \<Rightarrow> Inr x)"

definition scraped_counts :: "string \<Rightarrow> nat \<Rightarrow> string \<Rightarrow> nat \<Rightarrow> string \<Rightarrow> string" where
  "scraped_counts a m b n c = a @ str_nat m @ b @ str_nat n @ c"

definition scraper_agent ::
  "world \<Rightarrow> nat \<Rightarrow> PipelineState \<Rightarrow> (PipelineState \<times> csv_store) option" where
  "scraper_agent w fuel state0 =
     (let state = log_progress w (state0\<lparr>progress_status := ''scraping''\<rparr>)
                    ''Starting scraping step...'';
          breakout_path = ''data/breakout_products.csv'';
          rastah_path = ''data/rastah_products.csv''
      in if path_exists (csv_files w) breakout_path \<and> path_exists (csv_files w) rastah_path
         then
           (let state = log_progress w state ''Scraped data already exists. Skipping scraping.''
            in case read_file (csv_files w) breakout_path of
                 Inl e \<Rightarrow> Some (stage_error ''Scraper'' w state e, csv_files w)
               | Inr breakout_rows \<Rightarrow>
                   (case read_file (csv_files w) rastah_path of
                      Inl e \<Rightarrow> Some (stage_error ''Scraper'' w state e, csv_files w)
                    | Inr rastah_rows \<Rightarrow>
                        (let breakout_data = drop 1 breakout_rows;
                             rastah_data = drop 1 rastah_rows
                         in Some (state\<lparr>scraped_data :=
                                     [(''breakout'', breakout_data), (''rastah'', rastah_data)],
                                   messages := [(''system'',
                                     scraped_counts ''Skipped scraping. Loaded ''
                                       (length breakout_data) '' Breakout and ''
                                       (length rastah_data) '' Rastah products from CSV.'')]\<rparr>,
                                  csv_files w))))
         else
           (case gather (breakout_raises_first w)
                   (scrape_breakout (breakout_site w) fuel (max_products state div 2))
                   (scrape_rastah (rastah_site w) fuel (max_products state div 2)) of
              None \<Rightarrow> None
            | Some (Inl e) \<Rightarrow> Some (stage_error ''Scraper'' w state e, csv_files w)
            | Some (Inr (b, r)) \<Rightarrow>
                (let breakout_data = products_data b;
                     rastah_data = products_data r
                 in case save_to_csv (write_error w) breakout_data breakout_path (csv_files w) of
                      (Some e, fs1) \<Rightarrow> Some (stage_error ''Scraper'' w state e, fs1)
                    | (None, fs1) \<Rightarrow>
                        (case save_to_csv (write_error w) rastah_data rastah_path fs1 of
                           (Some e, fs2) \<Rightarrow> Some (stage_error ''Scraper'' w state e, fs2)
                         | (None, fs2) \<Rightarrow>
                             (let state = log_progress w state
                                    (scraped_counts ''Scraping complete. ''
                                       (length breakout_data) '' Breakout, ''
                                       (length rastah_data) '' Rastah products.'')
                              in Some (state\<lparr>scraped_data :=
                                          [(''breakout'', breakout_data), (''rastah'', rastah_data)],
                                        messages := [(''system'',
                                          scraped_counts ''Completed scraping. Found ''
                                            (length breakout_data) '' Breakout products and ''
                                            (length rastah_data) '' Rastah products'')]\<rparr>,
                                       fs2))))))"

definition analysis_agent :: "world \<Rightarrow> PipelineState \<Rightarrow> PipelineState \<times> text_store" where
  "analysis_agent w state0 =
     (let state = log_progress w (state0\<lparr>progress_status := ''analyzing''\<rparr>)
                    ''Starting analysis step...''
      in if path_exists (text_files w) analysis_path
         then
           (case read_file (text_files w) analysis_path of
              Inl e \<Rightarrow> (stage_error ''Analysis'' w state e, text_files w)
            | Inr results \<Rightarrow>
                (let state = log_progress w state ''Analysis already exists. Skipping analysis.''
                 in (state\<lparr>analysis_results := results,
                            messages := [(''system'',
                              ''Skipped analysis. Loaded existing analysis results.'')]\<rparr>,
                     text_files w)))
         else
           (case run_deep_analysis w [''data/breakout_products.csv'', ''data/rastah_products.csv''] of
              (Inl e, ts) \<Rightarrow> (stage_error ''Analysis'' w state e, ts)
            | (Inr analysis, ts) \<Rightarrow>
                (case read_file ts analysis_path of
                   Inl e \<Rightarrow> (stage_error ''Analysis'' w state e, ts)
                 | Inr results \<Rightarrow>
                     (let state = log_progress w state ''Analysis complete.''
                      in (state\<lparr>analysis_results := results,
                                 messages := [(''system'',
                                   ''Completed deep analysis of product data'')]\<rparr>,
                          ts)))))"

definition qa_agent :: "world \<Rightarrow> PipelineState \<Rightarrow> PipelineState" where
  "qa_agent w state0 =
     (let state = log_progress w (state0\<lparr>progress_status := ''qa_processing''\<rparr>)
                    ''Starting QA step...''
      in case qa_chatbot w of
           Inl e \<Rightarrow> stage_error ''QA'' w state e
         | Inr chat \<Rightarrow>
             (case answer_question w chat (question state) of
                Inl e \<Rightarrow> stage_error ''QA'' w state e
              | Inr answer \<Rightarrow>
                  (let state = log_progress w state ''QA complete.''
                   in state\<lparr>messages := [(''assistant'', answer)]\<rparr>)))"

definition report_agent :: "world \<Rightarrow> PipelineState \<Rightarrow> PipelineState \<times> text_store" where
  "report_agent w state0 =
     (let state = log_progress w (state0\<lparr>progress_status := ''generating_report''\<rparr>)
                    ''Starting report generation step...''
      in if path_exists (text_files w) report_path
         then
           (case read_file (text_files w) report_path of
              Inl e \<Rightarrow> (stage_error ''Report'' w state e, text_files w)
            | Inr report_content \<Rightarrow>
                (let state = log_progress w state ''Report already exists. Skipping generation.''
                 in (state\<lparr>report := Some report_content,
                            progress_status := ''completed'',
                            messages := [(''system'',
                              ''Skipped report generation. Loaded existing report.'')]\<rparr>,
                     text_files w)))
         else
           (case generate_report w of
              (returned, ts) \<Rightarrow>
                (case read_file ts report_path of
                   Inl e \<Rightarrow> (stage_error ''Report'' w state e, ts)
                 | Inr report_content \<Rightarrow>
                     (let state = log_progress w state ''Report generation complete.''
                      in (state\<lparr>report := Some report_content,
                                 progress_status := ''completed'',
                                 messages := [(''system'', ''Report generation completed'')]\<rparr>,
                          ts)))))"

text \<open>
  \<^verbatim>\<open>route_next\<close> tests each field for truth: \<^verbatim>\<open>None\<close>, the empty string and the
  empty dictionary are false.
\<close>

definition truthy :: "string option \<Rightarrow> bool" where
  "truthy v = (case v of None \<Rightarrow> False | Some s \<Rightarrow> s \<noteq> [])"

definition route_next :: "PipelineState \<Rightarrow> string" where
  "route_next state =
     (if truthy (error state) then ''end''
      else if scraped_data state = [] then ''scraper''
      else if analysis_results state = [] then ''analyzer''
      else if \<not> truthy (report state) then ''report''
      else ''end'')"

text \<open>
  The graph built by \<^verbatim>\<open>Pipeline.__init__\<close>: after each node, \<^verbatim>\<open>route_next\<close> gives a
  label and the node's own table sends the label to the next node. A label that the
  table does not hold selects no node.
\<close>

definition nodes :: "string list" where
  "nodes = [''scraper'', ''analyzer'', ''qa'', ''report'']"

definition conditional_edges :: "(string \<times> (string \<times> string) list) list" where
  "conditional_edges =
     [(''scraper'', [(''analyzer'', ''analyzer''), (''end'', ''end'')]),
      (''analyzer'', [(''qa'', ''qa''), (''end'', ''end'')]),
      (''qa'', [(''report'', ''report''), (''end'', ''end'')]),
      (''report'', [(''end'', ''end'')])]"

definition entry_point :: string where
  "entry_point = ''scraper''"

definition next_node :: "string \<Rightarrow> PipelineState \<Rightarrow> string option" where
  "next_node node state =
     (case map_of conditional_edges node of
        None \<Rightarrow> None
      | Some path_map \<Rightarrow> map_of path_map (route_next state))"

text \<open>
  The number of product records that the two per-source files hold together, as the
  analysis reads them; a file that is missing or cannot be read holds none.
\<close>

definition records_in :: "csv_store \<Rightarrow> string \<Rightarrow> nat" where
  "records_in store path =
     (case store path of Content rows \<Rightarrow> length (dict_reader rows) | _ \<Rightarrow> 0)"

definition available_records :: "world \<Rightarrow> nat" where
  "available_records w =
     records_in (csv_files w) ''data/breakout_products.csv''
       + records_in (csv_files w) ''data/rastah_products.csv''"

section \<open>Example worlds\<close>

text \<open>
  A small Breakout site: two listing pages, the first item already in the visited-URL
  file, the second item timing out at every attempt, and the title of every other item
  page being its URL.
\<close>

definition timeout_error :: exn where
  "timeout_error = Exn PlaywrightTimeoutError ''Timeout 8000ms exceeded.''"

definition demo_site :: site where
  "demo_site =
     \<lparr>urls_file = Content [''https://breakout.com.pk/p1\<newline>''],
      save_error = None,
      launch_error = None,
      listing_pages = (\<lambda>i. if i = 0
         then Listing [Inr (Some ''/p1''), Inr (Some ''/p2''), Inr None, Inr (Some ''/p3'')] Next
         else Listing [Inr (Some ''/p4'')] NoNext),
      item_page = (\<lambda>url a. if url = ''https://breakout.com.pk/p2''
         then Raises timeout_error
         else Loaded (Element (Some url)) NoElement (Element None))\<rparr>"

text \<open>A Rastah site with absolute links and no visited-URL file yet.\<close>

definition demo_rastah :: site where
  "demo_rastah =
     \<lparr>urls_file = Absent,
      save_error = None,
      launch_error = None,
      listing_pages = (\<lambda>i. Listing [Inr (Some ''https://pk.rastah.co/r1''),
                                     Inr (Some ''https://pk.rastah.co/r2''),
                                     Inr (Some ''https://pk.rastah.co/r3'')] NoNext),
      item_page = (\<lambda>url a. Loaded (Element (Some url)) (Element (Some '' Rs.100 '')) NoElement)\<rparr>"

text \<open>A site whose visited-URL file cannot be opened.\<close>

definition locked_site :: site where
  "locked_site = demo_site\<lparr>urls_file := Damaged (Exn OtherError ''[Errno 13] Permission denied'')\<rparr>"

text \<open>A site whose visited-URL file cannot be written at the end of the crawl.\<close>

definition unsaved_site :: site where
  "unsaved_site =
     demo_site\<lparr>save_error := Some (Exn OtherError ''[Errno 28] No space left on device'')\<rparr>"

text \<open>The Breakout site with every item page loading at the first attempt.\<close>

definition full_site :: site where
  "full_site =
     demo_site\<lparr>item_page := (\<lambda>url a. Loaded (Element (Some url)) NoElement (Element None))\<rparr>"

text \<open>
  A world with both sites, no file yet, every write succeeding and a text generation
  that answers.
\<close>

definition demo_world :: world where
  "demo_world =
     \<lparr>breakout_site = full_site,
      rastah_site = demo_rastah,
      breakout_finishes_first = True,
      csv_files = (\<lambda>path. Absent),
      text_files = (\<lambda>path. Absent),
      write_error = (\<lambda>path. None),
      latest_csv_files = Inr [''data/all_products.csv''],
      llm_invoke = (\<lambda>model prompt. Inr ''<think>plan</think>Prices are close.''),
      format_exc = ''Traceback (most recent call last)'',
      isoformat_now = (\<lambda>n. ''2025-07-01T10:00:0'' @ str_nat n)\<rparr>"

definition demo_state :: PipelineState where
  "demo_state =
     \<lparr>question = ''Which site is cheaper?'',
      max_products = 7,
      headless = True,
      scraped_data = [],
      analysis_results = [],
      report = None,
      messages = [],
      progress_status = ''initializing'',
      progress_log = [],
      status = ''pending'',
      error = None\<rparr>"

text \<open>One Breakout record and a Rastah file that holds its header only.\<close>

definition one_record_files :: csv_store where
  "one_record_files =
     (\<lambda>path. if path = ''data/breakout_products.csv''
             then Content [csv_header, [''Shirt'', ''Rs.100'', ''N/A'', ''Breakout'']]
             else if path = ''data/rastah_products.csv'' then Content [csv_header]
             else Absent)"

definition one_record_world :: world where
  "one_record_world = demo_world\<lparr>csv_files := one_record_files\<rparr>"

text \<open>The same with an analysis left by an earlier run.\<close>

definition analysed_world :: world where
  "analysed_world =
     one_record_world\<lparr>text_files :=
        (\<lambda>path. if path = analysis_path then Content ''An earlier analysis.'' else Absent)\<rparr>"

text \<open>The same with an analysis file that exists and cannot be opened.\<close>

definition unreadable_world :: world where
  "unreadable_world =
     one_record_world\<lparr>text_files :=
        (\<lambda>path. if path = analysis_path
                then Damaged (Exn OtherError ''[Errno 13] Permission denied'')
                else Absent)\<rparr>"

text \<open>Two records, an earlier analysis, and a text generation that fails at every call.\<close>

definition two_record_files :: csv_store where
  "two_record_files =
     (\<lambda>path. if path = ''data/breakout_products.csv''
             then Content [csv_header, [''Shirt'', ''Rs.100'', ''N/A'', ''Breakout'']]
             else if path = ''data/rastah_products.csv''
             then Content [csv_header, [''Kurta'', ''Rs.200'', ''N/A'', ''Rastah'']]
             else Absent)"

definition rate_limit :: exn where
  "rate_limit = Exn OtherError ''Error code: 429''"

definition offline_world :: world where
  "offline_world =
     demo_world\<lparr>csv_files := two_record_files,
                 text_files :=
                   (\<lambda>path. if path = analysis_path then Content ''An earlier analysis.''
                           else Absent),
                 llm_invoke := (\<lambda>model prompt. Inl rate_limit)\<rparr>"

text \<open>
  Two records and no analysis yet, with the text generation failing for the analysis
  model only; and two records with an earlier analysis, with the text generation failing
  for the report model only.
\<close>

definition analysis_outage_world :: world where
  "analysis_outage_world =
     demo_world\<lparr>csv_files := two_record_files,
                 llm_invoke := (\<lambda>model prompt. if model = analysis_model then Inl rate_limit
                                             else Inr ''Breakout is cheaper.'')\<rparr>"

definition report_outage_world :: world where
  "report_outage_world =
     demo_world\<lparr>csv_files := two_record_files,
                 text_files :=
                   (\<lambda>path. if path = analysis_path then Content ''An earlier analysis.''
                           else Absent),
                 llm_invoke := (\<lambda>model prompt. if model = report_model then Inl rate_limit
                                             else Inr ''Breakout is cheaper.'')\<rparr>"

section \<open>Properties of the source crawler\<close>

text \<open>
  Discovery keeps the list of URLs free of repetitions and apart from the set loaded
  from the visited-URL file.
\<close>

lemma scan_links_fresh:
  "scan_links base m S links urls = Inr urls' \<Longrightarrow> distinct urls \<Longrightarrow> set urls \<inter> S = {}
     \<Longrightarrow> distinct urls' \<and> set urls' \<inter> S = {}"
  by (induction base m S links urls rule: scan_links.induct)
     (auto simp: Let_def split: if_splits)

lemma discover_fresh:
  "discover fuel pages i base m S urls = Some (Inr urls') \<Longrightarrow> distinct urls
     \<Longrightarrow> set urls \<inter> S = {} \<Longrightarrow> distinct urls' \<and> set urls' \<inter> S = {}"
proof (induction fuel arbitrary: i urls)
  case 0
  then show ?case by (simp add: discover.simps split: if_splits)
next
  case (Suc fuel)
  show ?case
  proof (cases "int (length urls) < m")
    case False
    with Suc.prems show ?thesis by (simp add: discover.simps)
  next
    case True
    with Suc.prems(1) obtain links nb us where
      p: "pages i = Listing links nb" and s: "scan_links base m S links urls = Inr us"
      and r: "(if m \<le> int (length us) then Some (Inr us)
               else case nb of NavError e \<Rightarrow> Some (Inl e) | NoNext \<Rightarrow> Some (Inr us)
                    | Next \<Rightarrow> discover fuel pages (Suc i) base m S us) = Some (Inr urls')"
      by (subst (asm) discover.simps) (auto split: listing.splits sum.splits)
    from scan_links_fresh [OF s Suc.prems(2,3)] have f: "distinct us" "set us \<inter> S = {}"
      by simp_all
    from r show ?thesis
      using f Suc.IH [OF _ f] by (auto split: if_splits nav.splits)
  qed
qed

lemma discover_nonpos:
  "m \<le> 0 \<Longrightarrow> discover fuel pages i base m S [] = Some (Inr [])"
  by (simp add: discover.simps)

lemma process_urls_cong:
  "(\<And>u. u \<in> set urls \<Longrightarrow> item' u = item u)
     \<Longrightarrow> process_urls item' source urls st = process_urls item source urls st"
proof (induction urls arbitrary: st)
  case Nil
  show ?case by simp
next
  case (Cons u urls)
  obtain d v where st: "st = (d, v)" by (cases st)
  have a: "item' u = item u" by (simp add: Cons.prems)
  have b: "process_urls item' source urls st' = process_urls item source urls st'" for st'
    by (rule Cons.IH) (simp add: Cons.prems)
  show ?case by (simp add: st a b del: extract_item.simps split: outcome.splits)
qed

lemma process_urls_visited:
  "snd (process_urls item source urls (d, v)) =
     v \<union> {u \<in> set urls. \<exists>row. extract_item (item u) source [0, 1] = Scraped row}"
  by (induction urls arbitrary: d v) (auto simp del: extract_item.simps split: outcome.splits)

lemma process_urls_records:
  "length (fst (process_urls item source urls (d, v))) =
     length d + length (filter (\<lambda>u. \<exists>row. extract_item (item u) source [0, 1] = Scraped row) urls)"
  by (induction urls arbitrary: d v) (auto simp del: extract_item.simps split: outcome.splits)

lemma process_urls_count:
  assumes "distinct urls" and "set urls \<inter> v = {}"
  shows "length (fst (process_urls item source urls ([], v))) =
           card (snd (process_urls item source urls ([], v)) - v)"
proof -
  let ?ok = "\<lambda>u. \<exists>row. extract_item (item u) source [0, 1] = Scraped row"
  have "snd (process_urls item source urls ([], v)) - v = set (filter ?ok urls)"
    using assms(2) by (auto simp: process_urls_visited simp del: extract_item.simps)
  moreover have "card (set (filter ?ok urls)) = length (filter ?ok urls)"
    by (rule distinct_card, rule distinct_filter, rule assms(1))
  ultimately show ?thesis by (simp add: process_urls_records del: extract_item.simps)
qed

lemma process_urls_skip:
  "extract_item (item u) source [0, 1] = Exhausted \<Longrightarrow>
   process_urls item source (xs @ u # ys) st = process_urls item source (xs @ ys) st"
proof (induction xs arbitrary: st)
  case Nil
  then show ?case by (cases st) (simp del: extract_item.simps)
next
  case (Cons x xs)
  then show ?case by (cases st) (simp del: extract_item.simps split: outcome.splits)
qed

lemma exhausted_iff:
  "extract_item page source [0, 1] = Exhausted \<longleftrightarrow>
     (\<exists>e0 e1. page 0 = Raises e0 \<and> exn_class e0 = PlaywrightTimeoutError \<and>
              page 1 = Raises e1 \<and> exn_class e1 = PlaywrightTimeoutError)"
  by (auto split: attempt.splits if_splits)

text \<open>
  What a browser session leaves: the loaded set grown by the URLs that were scraped,
  one record for each of them, and never more records than asked for.
\<close>

lemma py_slice_to_in_set: "x \<in> set (py_slice_to xs n) \<Longrightarrow> x \<in> set xs"
  by (auto simp: py_slice_to_def dest: in_set_takeD split: if_splits)

lemma py_slice_to_distinct: "distinct xs \<Longrightarrow> distinct (py_slice_to xs n)"
  by (simp add: py_slice_to_def)

lemma browser_session_item_update:
  assumes "u \<in> loaded"
  shows "browser_session base source (env\<lparr>item_page := (item_page env)(u := p)\<rparr>) fuel m loaded
           = browser_session base source env fuel m loaded"
proof (cases "launch_error env")
  case (Some e)
  then show ?thesis by (simp add: browser_session_def)
next
  case None
  show ?thesis
  proof (cases "discover fuel (listing_pages env) 0 base m loaded []")
    case N: None
    with None show ?thesis by (simp add: browser_session_def)
  next
    case S: (Some r)
    show ?thesis
    proof (cases r)
      case (Inl e)
      with None S show ?thesis by (simp add: browser_session_def)
    next
      case (Inr urls)
      have "process_urls ((item_page env)(u := p)) source (py_slice_to urls m) ([], loaded)
              = process_urls (item_page env) source (py_slice_to urls m) ([], loaded)"
      proof (rule process_urls_cong)
        fix x assume "x \<in> set (py_slice_to urls m)"
        then have "x \<in> set urls" by (rule py_slice_to_in_set)
        moreover from discover_fresh [of fuel "listing_pages env" 0 base m loaded "[]" urls]
        have "set urls \<inter> loaded = {}" using S Inr by simp
        ultimately have "x \<noteq> u" using assms by blast
        then show "((item_page env)(u := p)) x = item_page env x" by simp
      qed
      with None S Inr show ?thesis by (simp add: browser_session_def)
    qed
  qed
qed

lemma scrape_site_item_update:
  assumes "load_scraped_urls (urls_file env) = Inr loaded" and "u \<in> loaded"
  shows "scrape_site base source (env\<lparr>item_page := (item_page env)(u := p)\<rparr>) fuel m
           = scrape_site base source env fuel m"
  using assms
  by (simp add: scrape_site_def browser_session_item_update split: option.splits prod.splits)

lemma browser_session_visited:
  assumes "browser_session base source env fuel m loaded = Some (rows, visited)"
  shows "loaded \<subseteq> visited
    \<and> visited \<subseteq> loaded \<union> {u. \<exists>row. extract_item (item_page env u) source [0, 1] = Scraped row}
    \<and> length rows = card (visited - loaded) \<and> int (length rows) \<le> max m 0"
proof -
  consider (fail) "rows = []" "visited = loaded"
    | (ok) urls where "discover fuel (listing_pages env) 0 base m loaded [] = Some (Inr urls)"
        "process_urls (item_page env) source (py_slice_to urls m) ([], loaded) = (rows, visited)"
    using assms
    by (auto simp: browser_session_def split: option.splits sum.splits)
  then show ?thesis
  proof cases
    case fail
    then show ?thesis by simp
  next
    case ok
    let ?us = "py_slice_to urls m"
    let ?ok = "\<lambda>u. \<exists>row. extract_item (item_page env u) source [0, 1] = Scraped row"
    from discover_fresh [OF ok(1)] have f: "distinct urls" "set urls \<inter> loaded = {}" by simp_all
    have d: "distinct ?us" using f(1) by (rule py_slice_to_distinct)
    have i: "set ?us \<inter> loaded = {}" using f(2) py_slice_to_in_set [of _ urls m] by blast
    have v: "visited = loaded \<union> {u \<in> set ?us. ?ok u}"
      using process_urls_visited [of "item_page env" source ?us "[]" loaded] ok(2)
      by (simp del: extract_item.simps)
    have s1: "loaded \<subseteq> visited" by (subst v) (rule Un_upper1)
    have s2: "visited \<subseteq> loaded \<union> {u. ?ok u}" by (subst v) blast
    have c: "length rows = card (visited - loaded)"
      using process_urls_count [OF d i, of "item_page env" source] ok(2)
      by (simp del: extract_item.simps)
    have "length rows \<le> length ?us"
      using process_urls_records [of "item_page env" source ?us "[]" loaded] ok(2)
      by (simp del: extract_item.simps)
    moreover have "int (length ?us) \<le> max m 0"
    proof (cases "m \<le> 0")
      case True
      then have "urls = []" using ok(1) by (simp add: discover.simps)
      then show ?thesis by (simp add: py_slice_to_def)
    next
      case False
      then show ?thesis by (simp add: py_slice_to_def)
    qed
    ultimately have s4: "int (length rows) \<le> max m 0" by linarith
    from s1 s2 c s4 show ?thesis by (intro conjI)
  qed
qed

lemma scrape_site_result:
  assumes "scrape_site base source env fuel m = Some (Inr c)"
  obtains loaded where "load_scraped_urls (urls_file env) = Inr loaded"
    and "browser_session base source env fuel m loaded = Some (products_data c, scraped_urls c)"
    and "save_error env = None"
  using assms by (auto simp: scrape_site_def split: sum.splits option.splits)

lemma scrape_site_raises:
  assumes "scrape_site base source env fuel m = Some (Inl e)"
  shows "urls_file env = Damaged e \<or> save_error env = Some e"
  using assms
  by (auto simp: scrape_site_def load_scraped_urls_def split: sum.splits option.splits stored.splits)

lemma demo_site_loaded:
  "load_scraped_urls (urls_file demo_site) = Inr {''https://breakout.com.pk/p1''}"
  by (simp add: demo_site_def load_scraped_urls_def strip_def isspace_def)

lemma demo_site_crawl:
  "scrape_breakout demo_site 5 3 =
     Some (Inr \<lparr>products_data =
                  [[''https://breakout.com.pk/p3'', ''N/A'', ''N/A'', ''Breakout''],
                   [''https://breakout.com.pk/p4'', ''N/A'', ''N/A'', ''Breakout'']],
                scraped_urls = {''https://breakout.com.pk/p4'', ''https://breakout.com.pk/p3'',
                                ''https://breakout.com.pk/p1''}\<rparr>)"
  by code_simp

lemma scrape_site_fresh_records:
  assumes "load_scraped_urls (urls_file env) = Inr loaded"
    and "scrape_site base source env fuel n = Some (Inr c)"
  shows "loaded \<subseteq> scraped_urls c \<and> length (products_data c) = card (scraped_urls c - loaded)"
proof -
  from assms(2) obtain l where l: "load_scraped_urls (urls_file env) = Inr l"
    and b: "browser_session base source env fuel n l = Some (products_data c, scraped_urls c)"
    by (rule scrape_site_result)
  from l assms(1) have "l = loaded" by simp
  with browser_session_visited [OF b] show ?thesis by simp
qed

text \<open>
  Claim C2. A URL that is in the visited set loaded at the start of a crawl is not
  visited in that crawl: discovery never lists it, the crawl's result does not depend on
  what its item page would do, and the records returned are exactly as many as the URLs
  that the crawl adds to the loaded set.
\<close>

theorem visited_url_not_revisited:
  assumes "load_scraped_urls (urls_file env) = Inr loaded" and "url \<in> loaded"
  shows "(\<forall>base urls. discover fuel (listing_pages env) 0 base n loaded [] = Some (Inr urls)
            \<longrightarrow> url \<notin> set urls)
       \<and> scrape_breakout (env\<lparr>item_page := (item_page env)(url := p)\<rparr>) fuel n
           = scrape_breakout env fuel n
       \<and> scrape_rastah (env\<lparr>item_page := (item_page env)(url := p)\<rparr>) fuel n
           = scrape_rastah env fuel n
       \<and> (\<forall>c. scrape_breakout env fuel n = Some (Inr c) \<or> scrape_rastah env fuel n = Some (Inr c)
            \<longrightarrow> loaded \<subseteq> scraped_urls c
                \<and> length (products_data c) = card (scraped_urls c - loaded))"
proof (intro conjI allI impI)
  fix base urls
  assume "discover fuel (listing_pages env) 0 base n loaded [] = Some (Inr urls)"
  from discover_fresh [OF this] have "set urls \<inter> loaded = {}" by simp
  with assms(2) show "url \<notin> set urls" by blast
next
  show "scrape_breakout (env\<lparr>item_page := (item_page env)(url := p)\<rparr>) fuel n
          = scrape_breakout env fuel n"
    unfolding scrape_breakout_def using assms by (rule scrape_site_item_update)
next
  show "scrape_rastah (env\<lparr>item_page := (item_page env)(url := p)\<rparr>) fuel n
          = scrape_rastah env fuel n"
    unfolding scrape_rastah_def using assms by (rule scrape_site_item_update)
next
  fix c
  assume "scrape_breakout env fuel n = Some (Inr c) \<or> scrape_rastah env fuel n = Some (Inr c)"
  then have "loaded \<subseteq> scraped_urls c \<and> length (products_data c) = card (scraped_urls c - loaded)"
    unfolding scrape_breakout_def scrape_rastah_def
    using scrape_site_fresh_records [OF assms(1)] by blast
  then show "loaded \<subseteq> scraped_urls c"
    and "length (products_data c) = card (scraped_urls c - loaded)" by simp_all
qed

theorem visited_url_not_revisited_witness:
  "load_scraped_urls (urls_file demo_site) = Inr {''https://breakout.com.pk/p1''}
   \<and> scrape_breakout
         (demo_site\<lparr>item_page := (item_page demo_site)
            (''https://breakout.com.pk/p1'' := (\<lambda>a. Raises timeout_error))\<rparr>) 5 3
       = Some (Inr \<lparr>products_data =
                  [[''https://breakout.com.pk/p3'', ''N/A'', ''N/A'', ''Breakout''],
                   [''https://breakout.com.pk/p4'', ''N/A'', ''N/A'', ''Breakout'']],
                scraped_urls = {''https://breakout.com.pk/p4'', ''https://breakout.com.pk/p3'',
                                ''https://breakout.com.pk/p1''}\<rparr>)"
proof -
  have m: "''https://breakout.com.pk/p1'' \<in> {''https://breakout.com.pk/p1''}" by simp
  from visited_url_not_revisited [OF demo_site_loaded m, of 5 3 "\<lambda>a. Raises timeout_error"]
  have "scrape_breakout
         (demo_site\<lparr>item_page := (item_page demo_site)
            (''https://breakout.com.pk/p1'' := (\<lambda>a. Raises timeout_error))\<rparr>) 5 3
        = scrape_breakout demo_site 5 3" by (elim conjE)
  with demo_site_loaded demo_site_crawl show ?thesis by simp
qed

lemma exhausted_two_timeouts:
  assumes "page 0 = Raises e0" "exn_class e0 = PlaywrightTimeoutError"
    and "page 1 = Raises e1" "exn_class e1 = PlaywrightTimeoutError"
  shows "extract_item page source [0, 1] = Exhausted"
  using assms by simp

lemma scrape_site_exhausted:
  assumes "extract_item (item_page env url) source [0, 1] = Exhausted"
    and "load_scraped_urls (urls_file env) = Inr loaded" and "url \<notin> loaded"
    and "scrape_site base source env fuel n = Some (Inr c)"
  shows "url \<notin> scraped_urls c"
proof -
  from assms(4) obtain l where l: "load_scraped_urls (urls_file env) = Inr l"
    and b: "browser_session base source env fuel n l = Some (products_data c, scraped_urls c)"
    by (rule scrape_site_result)
  from l assms(2) have "l = loaded" by simp
  with browser_session_visited [OF b]
  have "scraped_urls c \<subseteq>
          loaded \<union> {u. \<exists>row. extract_item (item_page env u) source [0, 1] = Scraped row}"
    by simp
  moreover have "url \<notin> {u. \<exists>row. extract_item (item_page env u) source [0, 1] = Scraped row}"
    using assms(1) by (simp del: extract_item.simps)
  ultimately show ?thesis using assms(3) by blast
qed

text \<open>
  Claim C4. A URL whose two attempts both time out gives no record, the loop over the
  discovered URLs goes on as if the URL were not in the list, and a URL that was not in
  the loaded set is not in the set persisted at the end of the crawl.
\<close>

theorem exhausted_url_is_skipped:
  assumes "item_page env url 0 = Raises e0" and "exn_class e0 = PlaywrightTimeoutError"
    and "item_page env url 1 = Raises e1" and "exn_class e1 = PlaywrightTimeoutError"
  shows "extract_item (item_page env url) source [0, 1] = Exhausted
       \<and> (\<forall>xs ys st. process_urls (item_page env) source (xs @ url # ys) st
                       = process_urls (item_page env) source (xs @ ys) st)
       \<and> (\<forall>loaded c. load_scraped_urls (urls_file env) = Inr loaded \<and> url \<notin> loaded
             \<and> (scrape_breakout env fuel n = Some (Inr c) \<or> scrape_rastah env fuel n = Some (Inr c))
            \<longrightarrow> url \<notin> scraped_urls c)"
proof -
  have x: "extract_item (item_page env url) src [0, 1] = Exhausted" for src
    using assms by (rule exhausted_two_timeouts)
  have s: "process_urls (item_page env) source (xs @ url # ys) st
             = process_urls (item_page env) source (xs @ ys) st" for xs ys st
    using x by (rule process_urls_skip)
  have v: "url \<notin> scraped_urls c"
    if "load_scraped_urls (urls_file env) = Inr loaded \<and> url \<notin> loaded
        \<and> (scrape_breakout env fuel n = Some (Inr c) \<or> scrape_rastah env fuel n = Some (Inr c))"
    for loaded c
    using that scrape_site_exhausted [OF x, where loaded = loaded and c = c and fuel = fuel and n = n]
    unfolding scrape_breakout_def scrape_rastah_def by blast
  from x s v show ?thesis by blast
qed

theorem exhausted_url_is_skipped_witness:
  "item_page demo_site ''https://breakout.com.pk/p2'' 0 = Raises timeout_error
   \<and> item_page demo_site ''https://breakout.com.pk/p2'' 1 = Raises timeout_error
   \<and> exn_class timeout_error = PlaywrightTimeoutError
   \<and> extract_item (item_page demo_site ''https://breakout.com.pk/p2'') ''Breakout'' [0, 1] = Exhausted
   \<and> (\<exists>c. scrape_breakout demo_site 5 3 = Some (Inr c)
            \<and> ''https://breakout.com.pk/p2'' \<notin> scraped_urls c
            \<and> length (products_data c) = 2)"
proof -
  let ?u = "''https://breakout.com.pk/p2''"
  have h0: "item_page demo_site ?u 0 = Raises timeout_error" by (simp add: demo_site_def)
  have h1: "item_page demo_site ?u 1 = Raises timeout_error" by (simp add: demo_site_def)
  have t: "exn_class timeout_error = PlaywrightTimeoutError" by (simp add: timeout_error_def)
  have n: "?u \<notin> {''https://breakout.com.pk/p1''}" by simp
  note inst = exhausted_url_is_skipped [OF h0 t h1 t, of "''Breakout''" 5 3]
  from inst have x: "extract_item (item_page demo_site ?u) ''Breakout'' [0, 1] = Exhausted"
    by (elim conjE)
  from inst demo_site_loaded n demo_site_crawl
  have "?u \<notin> scraped_urls
          \<lparr>products_data =
                  [[''https://breakout.com.pk/p3'', ''N/A'', ''N/A'', ''Breakout''],
                   [''https://breakout.com.pk/p4'', ''N/A'', ''N/A'', ''Breakout'']],
                scraped_urls = {''https://breakout.com.pk/p4'', ''https://breakout.com.pk/p3'',
                                ''https://breakout.com.pk/p1''}\<rparr>"
    by blast
  with demo_site_crawl have "\<exists>c. scrape_breakout demo_site 5 3 = Some (Inr c)
            \<and> ?u \<notin> scraped_urls c \<and> length (products_data c) = 2"
    by simp
  with h0 h1 t x show ?thesis by (intro conjI)
qed

text \<open>
  The pagination loop ends when some listing page does not lead to a next one: with
  more fuel than the number of that page, discovery and the crawler return.
\<close>

lemma discover_returns:
  assumes "\<forall>links. pages (i + k) \<noteq> Listing links Next" and "k < fuel"
  shows "discover fuel pages i base m S urls \<noteq> None"
  using assms
proof (induction k arbitrary: fuel i urls)
  case 0
  then obtain f where f: "fuel = Suc f" by (cases fuel) simp_all
  from 0 have "\<forall>links. pages i \<noteq> Listing links Next" by simp
  then show ?case
    by (subst discover.simps)
       (auto simp: f split: listing.splits sum.splits nav.splits)
next
  case (Suc k)
  then obtain f where f: "fuel = Suc f" and kf: "k < f" by (cases fuel) simp_all
  from Suc.prems(1) have "\<forall>links. pages (Suc i + k) \<noteq> Listing links Next" by simp
  from Suc.IH [OF this kf] have "discover f pages (Suc i) base m S us \<noteq> None" for us .
  then show ?case
    by (subst discover.simps)
       (auto simp: f split: listing.splits sum.splits nav.splits)
qed

lemma scrape_site_returns:
  assumes "load_scraped_urls (urls_file env) = Inr loaded" and "save_error env = None"
    and "\<forall>links. listing_pages env k \<noteq> Listing links Next" and "k < fuel"
  shows "\<exists>c. scrape_site base source env fuel n = Some (Inr c)"
proof -
  from discover_returns [of "listing_pages env" 0 k fuel base n loaded "[]"] assms(3,4)
  have "discover fuel (listing_pages env) 0 base n loaded [] \<noteq> None" by simp
  then have "browser_session base source env fuel n loaded \<noteq> None"
    by (auto simp: browser_session_def split: option.splits sum.splits)
  with assms(1,2) show ?thesis
    by (auto simp: scrape_site_def split: option.splits)
qed

lemma scrape_site_never_raises_session:
  assumes "load_scraped_urls (urls_file env) = Inr loaded" and "save_error env = None"
  shows "scrape_site base source env fuel n \<noteq> Some (Inl e)"
proof
  assume "scrape_site base source env fuel n = Some (Inl e)"
  then have "urls_file env = Damaged e \<or> save_error env = Some e" by (rule scrape_site_raises)
  with assms show False by (auto simp: load_scraped_urls_def)
qed

lemma scrape_site_load_raises:
  "urls_file env = Damaged e \<Longrightarrow> scrape_site base source env fuel n = Some (Inl e)"
  by (simp add: scrape_site_def load_scraped_urls_def)

lemma scrape_site_save_raises:
  assumes "save_error env = Some e"
    and "scrape_site base source (env\<lparr>save_error := None\<rparr>) fuel n = Some (Inr c)"
  shows "scrape_site base source env fuel n = Some (Inl e)"
  using assms
  by (auto simp: scrape_site_def browser_session_def split: sum.splits option.splits)

text \<open>
  Claim C5, amended. A crawler absorbs every failure of the browser session: when the
  visited-URL file loads and saves without an exception, it raises nothing to its
  caller, whatever the browser and the pages do; a browser that fails to start, or a
  discovery that raises, gives an empty record list and the loaded set unchanged, and
  when the listing ends the crawler returns a record list. Loading and saving stand
  outside the \<^verbatim>\<open>try\<close> block: an exception of \<^verbatim>\<open>load_scraped_urls\<close> reaches the caller,
  an exception of \<^verbatim>\<open>save_scraped_urls\<close> reaches the caller in place of the record list
  that the crawl had built, and no other exception does.
\<close>

theorem crawler_raises_only_for_visited_file:
  "(\<forall>e. urls_file env = Damaged e \<longrightarrow>
        scrape_breakout env fuel n = Some (Inl e) \<and> scrape_rastah env fuel n = Some (Inl e))
   \<and> (\<forall>e c. save_error env = Some e
          \<and> scrape_breakout (env\<lparr>save_error := None\<rparr>) fuel n = Some (Inr c) \<longrightarrow>
        scrape_breakout env fuel n = Some (Inl e))
   \<and> (\<forall>e c. save_error env = Some e
          \<and> scrape_rastah (env\<lparr>save_error := None\<rparr>) fuel n = Some (Inr c) \<longrightarrow>
        scrape_rastah env fuel n = Some (Inl e))
   \<and> (\<forall>e. scrape_breakout env fuel n = Some (Inl e) \<or> scrape_rastah env fuel n = Some (Inl e) \<longrightarrow>
        urls_file env = Damaged e \<or> save_error env = Some e)
   \<and> (\<forall>loaded. load_scraped_urls (urls_file env) = Inr loaded \<and> save_error env = None \<longrightarrow>
        (\<forall>e. scrape_breakout env fuel n \<noteq> Some (Inl e))
        \<and> (\<forall>e. scrape_rastah env fuel n \<noteq> Some (Inl e))
        \<and> (launch_error env \<noteq> None \<longrightarrow>
             scrape_breakout env fuel n = Some (Inr \<lparr>products_data = [], scraped_urls = loaded\<rparr>)
           \<and> scrape_rastah env fuel n = Some (Inr \<lparr>products_data = [], scraped_urls = loaded\<rparr>))
        \<and> (\<forall>base source e.
             launch_error env = None
             \<and> discover fuel (listing_pages env) 0 base n loaded [] = Some (Inl e) \<longrightarrow>
             scrape_site base source env fuel n
               = Some (Inr \<lparr>products_data = [], scraped_urls = loaded\<rparr>))
        \<and> (\<forall>k. (\<forall>links. listing_pages env k \<noteq> Listing links Next) \<and> k < fuel \<longrightarrow>
             (\<exists>c. scrape_breakout env fuel n = Some (Inr c))
             \<and> (\<exists>c. scrape_rastah env fuel n = Some (Inr c))))"
proof -
  have p1: "scrape_site base source env fuel n = Some (Inl e)"
    if "urls_file env = Damaged e" for base source e
    using that by (rule scrape_site_load_raises)
  have p2: "scrape_site base source env fuel n = Some (Inl e)"
    if "save_error env = Some e
        \<and> scrape_site base source (env\<lparr>save_error := None\<rparr>) fuel n = Some (Inr c)"
    for base source e c
    using that scrape_site_save_raises [of env e base source fuel n c] by blast
  have p3: "urls_file env = Damaged e \<or> save_error env = Some e"
    if "scrape_site base source env fuel n = Some (Inl e)" for base source e
    using that by (rule scrape_site_raises)
  have ok: "(\<forall>e. scrape_breakout env fuel n \<noteq> Some (Inl e))
        \<and> (\<forall>e. scrape_rastah env fuel n \<noteq> Some (Inl e))
        \<and> (launch_error env \<noteq> None \<longrightarrow>
             scrape_breakout env fuel n = Some (Inr \<lparr>products_data = [], scraped_urls = loaded\<rparr>)
           \<and> scrape_rastah env fuel n = Some (Inr \<lparr>products_data = [], scraped_urls = loaded\<rparr>))
        \<and> (\<forall>base source e.
             launch_error env = None
             \<and> discover fuel (listing_pages env) 0 base n loaded [] = Some (Inl e) \<longrightarrow>
             scrape_site base source env fuel n
               = Some (Inr \<lparr>products_data = [], scraped_urls = loaded\<rparr>))
        \<and> (\<forall>k. (\<forall>links. listing_pages env k \<noteq> Listing links Next) \<and> k < fuel \<longrightarrow>
             (\<exists>c. scrape_breakout env fuel n = Some (Inr c))
             \<and> (\<exists>c. scrape_rastah env fuel n = Some (Inr c)))"
    if assms: "load_scraped_urls (urls_file env) = Inr loaded \<and> save_error env = None" for loaded
  proof -
    from assms have a1: "load_scraped_urls (urls_file env) = Inr loaded"
      and a2: "save_error env = None" by simp_all
    have t: "\<exists>c. scrape_site base source env fuel n = Some (Inr c)"
      if "(\<forall>links. listing_pages env k \<noteq> Listing links Next) \<and> k < fuel" for base source k
      using that a1 a2 scrape_site_returns [of env loaded k fuel base source n] by blast
    have r: "scrape_site base source env fuel n \<noteq> Some (Inl e)" for base source e
      using a1 a2 by (rule scrape_site_never_raises_session)
    have l: "scrape_site base source env fuel n
               = Some (Inr \<lparr>products_data = [], scraped_urls = loaded\<rparr>)"
      if "launch_error env \<noteq> None" for base source
      using that a1 a2 by (auto simp: scrape_site_def browser_session_def)
    have d: "scrape_site base source env fuel n
               = Some (Inr \<lparr>products_data = [], scraped_urls = loaded\<rparr>)"
      if "launch_error env = None
          \<and> discover fuel (listing_pages env) 0 base n loaded [] = Some (Inl e)" for base source e
      using that a1 a2 by (simp add: scrape_site_def browser_session_def)
    from r l d t show ?thesis unfolding scrape_breakout_def scrape_rastah_def by blast
  qed
  have c1: "\<forall>e. urls_file env = Damaged e \<longrightarrow>
        scrape_breakout env fuel n = Some (Inl e) \<and> scrape_rastah env fuel n = Some (Inl e)"
    unfolding scrape_breakout_def scrape_rastah_def using p1 by blast
  have c2: "\<forall>e c. save_error env = Some e
          \<and> scrape_breakout (env\<lparr>save_error := None\<rparr>) fuel n = Some (Inr c) \<longrightarrow>
        scrape_breakout env fuel n = Some (Inl e)"
    unfolding scrape_breakout_def using p2 by blast
  have c3: "\<forall>e c. save_error env = Some e
          \<and> scrape_rastah (env\<lparr>save_error := None\<rparr>) fuel n = Some (Inr c) \<longrightarrow>
        scrape_rastah env fuel n = Some (Inl e)"
    unfolding scrape_rastah_def using p2 by blast
  have c4: "\<forall>e. scrape_breakout env fuel n = Some (Inl e) \<or> scrape_rastah env fuel n = Some (Inl e) \<longrightarrow>
        urls_file env = Damaged e \<or> save_error env = Some e"
    unfolding scrape_breakout_def scrape_rastah_def using p3 by blast
  from c1 c2 c3 c4 ok show ?thesis by (intro conjI allI impI) blast+
qed

lemma unsaved_site_crawl:
  "scrape_breakout (unsaved_site\<lparr>save_error := None\<rparr>) 5 3 =
     Some (Inr \<lparr>products_data =
                  [[''https://breakout.com.pk/p3'', ''N/A'', ''N/A'', ''Breakout''],
                   [''https://breakout.com.pk/p4'', ''N/A'', ''N/A'', ''Breakout'']],
                scraped_urls = {''https://breakout.com.pk/p4'', ''https://breakout.com.pk/p3'',
                                ''https://breakout.com.pk/p1''}\<rparr>)"
  by code_simp

theorem crawler_raises_only_for_visited_file_witness:
  "urls_file locked_site = Damaged (Exn OtherError ''[Errno 13] Permission denied'')
   \<and> scrape_breakout locked_site 5 3 = Some (Inl (Exn OtherError ''[Errno 13] Permission denied''))
   \<and> save_error unsaved_site = Some (Exn OtherError ''[Errno 28] No space left on device'')
   \<and> scrape_breakout unsaved_site 5 3
       = Some (Inl (Exn OtherError ''[Errno 28] No space left on device''))
   \<and> load_scraped_urls (urls_file (demo_site\<lparr>launch_error := Some timeout_error\<rparr>))
       = Inr {''https://breakout.com.pk/p1''}
   \<and> save_error (demo_site\<lparr>launch_error := Some timeout_error\<rparr>) = None
   \<and> scrape_breakout (demo_site\<lparr>launch_error := Some timeout_error\<rparr>) 0 3
       = Some (Inr \<lparr>products_data = [], scraped_urls = {''https://breakout.com.pk/p1''}\<rparr>)
   \<and> (\<exists>c. scrape_breakout demo_site 5 3 = Some (Inr c))"
proof -
  let ?env = "demo_site\<lparr>launch_error := Some timeout_error\<rparr>"
  have l1: "urls_file locked_site = Damaged (Exn OtherError ''[Errno 13] Permission denied'')"
    by (simp add: locked_site_def)
  from crawler_raises_only_for_visited_file [of locked_site 5 3] l1
  have l2: "scrape_breakout locked_site 5 3
              = Some (Inl (Exn OtherError ''[Errno 13] Permission denied''))"
    by blast
  have s1: "save_error unsaved_site = Some (Exn OtherError ''[Errno 28] No space left on device'')"
    by (simp add: unsaved_site_def)
  from crawler_raises_only_for_visited_file [of unsaved_site 5 3] s1 unsaved_site_crawl
  have s2: "scrape_breakout unsaved_site 5 3
              = Some (Inl (Exn OtherError ''[Errno 28] No space left on device''))"
    by blast
  have h1: "load_scraped_urls (urls_file ?env) = Inr {''https://breakout.com.pk/p1''}"
    using demo_site_loaded by simp
  have h2: "save_error ?env = None" by (simp add: demo_site_def)
  have h3: "launch_error ?env \<noteq> None" by simp
  from crawler_raises_only_for_visited_file [of ?env 0 3] h1 h2 h3
  have h4: "scrape_breakout ?env 0 3
          = Some (Inr \<lparr>products_data = [], scraped_urls = {''https://breakout.com.pk/p1''}\<rparr>)"
    by blast
  have d1: "save_error demo_site = None" by (simp add: demo_site_def)
  have d2: "\<forall>links. listing_pages demo_site 1 \<noteq> Listing links Next"
    by (simp add: demo_site_def)
  have d3: "(1::nat) < 5" by simp
  from crawler_raises_only_for_visited_file [of demo_site 5 3] demo_site_loaded d1 d2 d3
  have d4: "\<exists>c. scrape_breakout demo_site 5 3 = Some (Inr c)" by blast
  from l1 l2 s1 s2 h1 h2 h4 d4 show ?thesis by (intro conjI)
qed

text \<open>
  Claim C5 as stated fails: a visited-URL file that cannot be opened makes
  \<^verbatim>\<open>scrape_breakout\<close> raise.
\<close>

theorem crawler_raises_counterexample:
  "scrape_breakout locked_site 0 5 = Some (Inl (Exn OtherError ''[Errno 13] Permission denied''))"
  by (simp add: scrape_breakout_def scrape_site_def locked_site_def load_scraped_urls_def)

section \<open>Properties of the crawl coordinator\<close>

lemma gather_Inr:
  "gather f a b = Some (Inr (x, y)) \<longleftrightarrow> a = Some (Inr x) \<and> b = Some (Inr y)"
  by (auto simp: gather_def split: option.splits sum.splits)

text \<open>
  When Breakout raises on saving and Rastah on loading, the caller gets the exception
  of Rastah, which is raised first.
\<close>

lemma rastah_load_error_comes_first:
  "(case scrape_all_products
           (demo_world\<lparr>breakout_site := unsaved_site, rastah_site := locked_site\<rparr>) 5 3 of
      Some (Inl e, fs) \<Rightarrow> e = Exn OtherError ''[Errno 13] Permission denied''
    | _ \<Rightarrow> False)"
  by code_simp

lemma save_to_csv_ok:
  "save_to_csv werr rows filename store = (None, store') \<Longrightarrow>
     store' = store(''data/'' @ filename := Content (csv_header # rows))"
  by (auto simp: save_to_csv_def Let_def split: option.splits)

lemma save_to_csv_no_error:
  "werr (''data/'' @ filename) = None \<Longrightarrow>
     save_to_csv werr rows filename store
       = (None, store(''data/'' @ filename := Content (csv_header # rows)))"
  by (simp add: save_to_csv_def)

text \<open>
  Claim C1. For a requested total of at least 1 and any records \<open>b\<close> and \<open>r\<close> that the
  Breakout and the Rastah crawler return, the coordinator returns the first \<open>N\<close>
  records of \<open>b\<close> followed by \<open>r\<close>, never more than \<open>N\<close> of them, and writes the same
  rows under the header to the combined file; it does return when no file write raises.
\<close>

theorem combined_is_truncated_concatenation:
  assumes "1 \<le> N" and "ceil_half N = Inr q"
    and "scrape_breakout (breakout_site w) fuel q = Some (Inr b)"
    and "scrape_rastah (rastah_site w) fuel q = Some (Inr r)"
  shows "((\<forall>path. write_error w path = None) \<longrightarrow>
            (\<exists>s fs. scrape_all_products w fuel N = Some (Inr s, fs)))
       \<and> (\<forall>s fs. scrape_all_products w fuel N = Some (Inr s, fs) \<longrightarrow>
            data s = take (nat N) (products_data b @ products_data r)
            \<and> length (data s) \<le> nat N
            \<and> total_scraped s = length (data s)
            \<and> fs ''data/all_products.csv'' = Content (csv_header # data s))"
proof -
  have g: "gather (breakout_raises_first w) (scrape_breakout (breakout_site w) fuel q)
                  (scrape_rastah (rastah_site w) fuel q) = Some (Inr (b, r))"
    using assms(3,4) by (simp add: gather_Inr)
  have t: "py_slice_to xs N = take (nat N) xs" for xs :: "string list list"
    using assms(1) by (simp add: py_slice_to_def)
  have ok: "\<exists>s fs. scrape_all_products w fuel N = Some (Inr s, fs)"
    if "\<forall>path. write_error w path = None"
    using that assms(2) g by (simp add: scrape_all_products_def save_to_csv_no_error Let_def)
  have res: "data s = take (nat N) (products_data b @ products_data r)
            \<and> length (data s) \<le> nat N
            \<and> total_scraped s = length (data s)
            \<and> fs ''data/all_products.csv'' = Content (csv_header # data s)"
    if "scrape_all_products w fuel N = Some (Inr s, fs)" for s fs
    using that assms(2) g
    by (auto simp: scrape_all_products_def Let_def t dest!: save_to_csv_ok
             split: prod.splits option.splits)
  from ok res show ?thesis by blast
qed

text \<open>
  The quota \<^verbatim>\<open>math.ceil(total_products / 2)\<close> is the ceiling of the half for every
  total that a double holds exactly.
\<close>

lemma bit_length_bound: "m < 2 ^ k \<Longrightarrow> bit_length m \<le> k"
proof (induction k arbitrary: m)
  case 0
  then show ?case by (simp add: bit_length.simps)
next
  case (Suc k)
  show ?case
  proof (cases "m \<le> 0")
    case True
    then show ?thesis by (simp add: bit_length.simps)
  next
    case False
    from Suc.prems have "m div 2 < 2 ^ k" by simp
    then have "bit_length (m div 2) \<le> k" by (rule Suc.IH)
    with False show ?thesis by (subst bit_length.simps) simp
  qed
qed

lemma ceil_half_exact:
  assumes "\<bar>n\<bar> < 2 ^ 53"
  shows "ceil_half n = Inr ((n + 1) div 2)"
proof -
  have "bit_length \<bar>n\<bar> \<le> 53" using assms by (rule bit_length_bound)
  then have k: "bit_length \<bar>n\<bar> - 53 = 0" by simp
  have r: "round_half_even \<bar>n\<bar> 0 = \<bar>n\<bar>" by (simp add: round_half_even_def)
  have "\<bar>n\<bar> < 2 ^ 1025"
  proof -
    have "(2::int) ^ 53 \<le> 2 ^ 1025" by (rule power_increasing) simp_all
    with assms show ?thesis by linarith
  qed
  then have "\<not> 2 ^ 1025 \<le> \<bar>n\<bar>" by (simp only: not_le)
  then have "true_div_2 n = Inr n" by (simp only: true_div_2_def k r Let_def if_False) simp
  moreover have "- ((- n) div 2) = (n + 1) div 2" by presburger
  ultimately show ?thesis by (simp add: ceil_half_def math_ceil_halves_def)
qed

lemma ceil_half_seven: "ceil_half 7 = Inr 4"
  using ceil_half_exact [of 7] by simp

text \<open>
  Claim C6. The quota of each source is meant to be the ceiling of \<open>total / 2\<close>, and
  it is 4 for a total of 7. The division is a floating-point one, though: at the total
  \<open>2 ^ 53 + 1\<close> the quotient is rounded down to \<open>2 ^ 52\<close> before the ceiling is
  taken, one less than the ceiling of the half.
\<close>

theorem ceil_half_beyond_double:
  "ceil_half 9007199254740993 = Inr 4503599627370496
   \<and> (9007199254740993 + 1) div 2 = (4503599627370497 :: int)"
  by code_simp

lemma ceil_half_three: "ceil_half 3 = Inr 2"
  using ceil_half_exact [of 3] by simp

lemma full_site_crawl:
  "scrape_breakout (breakout_site demo_world) 5 2 =
     Some (Inr \<lparr>products_data =
                  [[''https://breakout.com.pk/p2'', ''N/A'', ''N/A'', ''Breakout''],
                   [''https://breakout.com.pk/p3'', ''N/A'', ''N/A'', ''Breakout'']],
                scraped_urls = {''https://breakout.com.pk/p3'', ''https://breakout.com.pk/p2'',
                                ''https://breakout.com.pk/p1''}\<rparr>)"
  by code_simp

lemma demo_rastah_crawl:
  "scrape_rastah (rastah_site demo_world) 5 2 =
     Some (Inr \<lparr>products_data =
                  [[''https://pk.rastah.co/r1'', ''Rs.100'', ''N/A'', ''Rastah''],
                   [''https://pk.rastah.co/r2'', ''Rs.100'', ''N/A'', ''Rastah'']],
                scraped_urls = {''https://pk.rastah.co/r2'', ''https://pk.rastah.co/r1''}\<rparr>)"
  by code_simp

theorem combined_is_truncated_concatenation_witness:
  "(1::int) \<le> 3 \<and> ceil_half 3 = Inr 2
   \<and> (\<exists>s fs. scrape_all_products demo_world 5 3 = Some (Inr s, fs)
         \<and> data s = [[''https://breakout.com.pk/p2'', ''N/A'', ''N/A'', ''Breakout''],
                      [''https://breakout.com.pk/p3'', ''N/A'', ''N/A'', ''Breakout''],
                      [''https://pk.rastah.co/r1'', ''Rs.100'', ''N/A'', ''Rastah'']])"
proof -
  have n: "(1::int) \<le> 3" by simp
  have w: "\<forall>path. write_error demo_world path = None" by (simp add: demo_world_def)
  note inst = combined_is_truncated_concatenation
                [OF n ceil_half_three full_site_crawl demo_rastah_crawl]
  from inst w obtain s fs where s: "scrape_all_products demo_world 5 3 = Some (Inr s, fs)"
    by blast
  with inst have "data s = take (nat 3)
       (products_data \<lparr>products_data =
                  [[''https://breakout.com.pk/p2'', ''N/A'', ''N/A'', ''Breakout''],
                   [''https://breakout.com.pk/p3'', ''N/A'', ''N/A'', ''Breakout'']],
                scraped_urls = {''https://breakout.com.pk/p3'', ''https://breakout.com.pk/p2'',
                                ''https://breakout.com.pk/p1''}\<rparr>
        @ products_data \<lparr>products_data =
                  [[''https://pk.rastah.co/r1'', ''Rs.100'', ''N/A'', ''Rastah''],
                   [''https://pk.rastah.co/r2'', ''Rs.100'', ''N/A'', ''Rastah'']],
                scraped_urls = {''https://pk.rastah.co/r2'', ''https://pk.rastah.co/r1''}\<rparr>)"
    by blast
  then have "data s = [[''https://breakout.com.pk/p2'', ''N/A'', ''N/A'', ''Breakout''],
                      [''https://breakout.com.pk/p3'', ''N/A'', ''N/A'', ''Breakout''],
                      [''https://pk.rastah.co/r1'', ''Rs.100'', ''N/A'', ''Rastah'']]"
    by simp
  with s n ceil_half_three show ?thesis by blast
qed

section \<open>Properties of the pipeline\<close>

lemma stage_error_fields:
  "error (stage_error agent w state e) = Some (agent @ '' agent error: '' @ str e @ ''\<newline>'' @ format_exc w)"
  "status (stage_error agent w state e) = ''failed''"
  "report (stage_error agent w state e) = report state"
  "scraped_data (stage_error agent w state e) = scraped_data state"
  "analysis_results (stage_error agent w state e) = analysis_results state"
  by (simp_all add: stage_error_def log_progress_def Let_def)

lemma route_next_stage_error: "route_next (stage_error agent w state e) = ''end''"
  by (simp add: route_next_def truthy_def stage_error_fields)

text \<open>
  Claim C3. A state whose \<open>error\<close> is a non-empty text is routed to \<open>end\<close> whatever its
  other fields hold, so no node of the graph follows; and the handler of every stage
  leaves such a state, with \<open>status\<close> set to \<open>failed\<close>.
\<close>

theorem error_routes_to_end:
  assumes "error state = Some e" and "e \<noteq> []"
  shows "route_next state = ''end''
       \<and> (\<forall>node. next_node node state = None \<or> next_node node state = Some ''end'')
       \<and> (\<forall>agent w x. status (stage_error agent w state x) = ''failed''
             \<and> route_next (stage_error agent w state x) = ''end'')"
proof -
  have r: "route_next state = ''end''" using assms by (simp add: route_next_def truthy_def)
  have n: "next_node node state = None \<or> next_node node state = Some ''end''" for node
    by (simp add: next_node_def r conditional_edges_def)
  from r n show ?thesis by (simp add: stage_error_fields route_next_stage_error)
qed

theorem error_routes_to_end_witness:
  "error (demo_state\<lparr>error := Some ''Scraper agent error: boom''\<rparr>) = Some ''Scraper agent error: boom''
   \<and> ''Scraper agent error: boom'' \<noteq> []
   \<and> scraped_data (demo_state\<lparr>error := Some ''Scraper agent error: boom''\<rparr>) = []
   \<and> route_next (demo_state\<lparr>error := Some ''Scraper agent error: boom''\<rparr>) = ''end''
   \<and> route_next demo_state = ''scraper''"
proof -
  let ?s = "demo_state\<lparr>error := Some ''Scraper agent error: boom''\<rparr>"
  have h1: "error ?s = Some ''Scraper agent error: boom''" by simp
  have h2: "''Scraper agent error: boom'' \<noteq> []" by simp
  have h3: "scraped_data ?s = []" by (simp add: demo_state_def)
  have h4: "route_next demo_state = ''scraper''"
    by (simp add: route_next_def truthy_def demo_state_def)
  from error_routes_to_end [OF h1 h2] have "route_next ?s = ''end''" by (elim conjE)
  with h1 h2 h3 h4 show ?thesis by (intro conjI)
qed

text \<open>
  Claim C9. The labels that \<^verbatim>\<open>route_next\<close> returns are exactly \<open>end\<close>, \<open>scraper\<close>,
  \<open>analyzer\<close> and \<open>report\<close>. It never returns \<open>qa\<close>, so no edge of the graph leads to
  the \<open>qa\<close> node, which is not the entry point either, although the graph holds that
  node.
\<close>

theorem router_never_selects_qa:
  "range route_next = {''end'', ''scraper'', ''analyzer'', ''report''}
   \<and> route_next state \<noteq> ''qa''
   \<and> next_node node state \<noteq> Some ''qa''
   \<and> entry_point \<noteq> ''qa''
   \<and> ''qa'' \<in> set nodes"
proof -
  have sub: "route_next s \<in> {''end'', ''scraper'', ''analyzer'', ''report''}" for s
    by (simp add: route_next_def)
  have e: "route_next (demo_state\<lparr>error := Some ''x''\<rparr>) = ''end''"
    by (simp add: route_next_def truthy_def)
  have s: "route_next demo_state = ''scraper''"
    by (simp add: route_next_def truthy_def demo_state_def)
  have a: "route_next (demo_state\<lparr>scraped_data := [(''breakout'', [])]\<rparr>) = ''analyzer''"
    by (simp add: route_next_def truthy_def demo_state_def)
  have r: "route_next (demo_state\<lparr>scraped_data := [(''breakout'', [])],
                                  analysis_results := ''text''\<rparr>) = ''report''"
    by (simp add: route_next_def truthy_def demo_state_def)
  have "{''end'', ''scraper'', ''analyzer'', ''report''} \<subseteq> range route_next"
    using e s a r by (metis empty_subsetI insert_subset rangeI)
  moreover have "range route_next \<subseteq> {''end'', ''scraper'', ''analyzer'', ''report''}"
    using sub by blast
  ultimately have rng: "range route_next = {''end'', ''scraper'', ''analyzer'', ''report''}"
    by (rule subset_antisym [rotated])
  have q: "route_next s \<noteq> ''qa''" for s using sub [of s] by auto
  have n: "next_node node state \<noteq> Some ''qa''"
  proof
    assume "next_node node state = Some ''qa''"
    then obtain pm where "map_of conditional_edges node = Some pm"
      and "map_of pm (route_next state) = Some ''qa''"
      by (auto simp: next_node_def split: option.splits)
    then show False using q [of state]
      by (auto simp: conditional_edges_def split: if_splits)
  qed
  have "''qa'' \<in> set nodes" and "entry_point \<noteq> ''qa''"
    by (simp_all add: nodes_def entry_point_def)
  with rng q n show ?thesis by blast
qed

lemma crawl_at_most_quota:
  assumes "scrape_site base source env fuel n = Some (Inr c)"
  shows "int (length (products_data c)) \<le> max n 0"
proof -
  from assms obtain l where
    "browser_session base source env fuel n l = Some (products_data c, scraped_urls c)"
    by (rule scrape_site_result)
  from browser_session_visited [OF this] show ?thesis by simp
qed

text \<open>
  The Scrape stage, when it crawls (the two CSV files are not both there), calls both
  crawlers with the quota \<open>max_products div 2\<close>, the floor of the half, whatever
  happens afterwards: either a crawler raises and the stage records that exception, or
  both return for that quota, each at most that many records, and the stage holds
  their records or records the exception of a CSV write.
\<close>

lemma scraper_agent_floor_quota:
  assumes "\<not> (path_exists (csv_files w) ''data/breakout_products.csv''
              \<and> path_exists (csv_files w) ''data/rastah_products.csv'')"
    and "scraper_agent w fuel state = Some (state', fs)"
  shows "(\<exists>e. (scrape_breakout (breakout_site w) fuel (max_products state div 2) = Some (Inl e)
              \<or> scrape_rastah (rastah_site w) fuel (max_products state div 2) = Some (Inl e))
            \<and> error state' = Some (''Scraper agent error: '' @ str e @ ''\<newline>'' @ format_exc w)
            \<and> status state' = ''failed'')
       \<or> (\<exists>b r. scrape_breakout (breakout_site w) fuel (max_products state div 2) = Some (Inr b)
            \<and> scrape_rastah (rastah_site w) fuel (max_products state div 2) = Some (Inr r)
            \<and> int (length (products_data b)) \<le> max (max_products state div 2) 0
            \<and> int (length (products_data r)) \<le> max (max_products state div 2) 0
            \<and> (scraped_data state'
                  = [(''breakout'', products_data b), (''rastah'', products_data r)]
                \<or> (\<exists>e path. write_error w path = Some e
                      \<and> error state'
                          = Some (''Scraper agent error: '' @ str e @ ''\<newline>'' @ format_exc w)
                      \<and> status state' = ''failed'')))"
proof -
  let ?q = "max_products state div 2"
  let ?st = "log_progress w (state\<lparr>progress_status := ''scraping''\<rparr>) ''Starting scraping step...''"
  let ?g = "gather (breakout_raises_first w) (scrape_breakout (breakout_site w) fuel ?q)
               (scrape_rastah (rastah_site w) fuel ?q)"
  have mp: "max_products ?st = max_products state" by (simp add: log_progress_def)
  from assms(1)
  have f: "(path_exists (csv_files w) ''data/breakout_products.csv''
            \<and> path_exists (csv_files w) ''data/rastah_products.csv'') = False"
    by simp
  from assms(2) have "?g \<noteq> None"
    by (auto simp: scraper_agent_def Let_def mp f split: option.splits)
  then obtain res where res: "?g = Some res" by blast
  show ?thesis
  proof (cases res)
    case (Inl e)
    with res have "scrape_breakout (breakout_site w) fuel ?q = Some (Inl e)
              \<or> scrape_rastah (rastah_site w) fuel ?q = Some (Inl e)"
      by (auto simp: gather_def split: option.splits sum.splits if_splits)
    moreover from assms(2) res Inl have "state' = stage_error ''Scraper'' w ?st e"
      by (simp add: scraper_agent_def Let_def mp f)
    ultimately show ?thesis by (auto simp: stage_error_fields)
  next
    case (Inr p)
    obtain b r where p: "p = (b, r)" by (cases p)
    with res Inr have g: "?g = Some (Inr (b, r))" by simp
    then have b: "scrape_breakout (breakout_site w) fuel ?q = Some (Inr b)"
      and r: "scrape_rastah (rastah_site w) fuel ?q = Some (Inr r)"
      by (simp_all add: gather_Inr)
    have lb: "int (length (products_data b)) \<le> max ?q 0"
      using b unfolding scrape_breakout_def by (rule crawl_at_most_quota)
    have lr: "int (length (products_data r)) \<le> max ?q 0"
      using r unfolding scrape_rastah_def by (rule crawl_at_most_quota)
    from assms(2) g
    have "scraped_data state' = [(''breakout'', products_data b), (''rastah'', products_data r)]
          \<or> (\<exists>e path. write_error w path = Some e
                \<and> error state'
                    = Some (''Scraper agent error: '' @ str e @ ''\<newline>'' @ format_exc w)
                \<and> status state' = ''failed'')"
      by (auto simp: scraper_agent_def Let_def mp f save_to_csv_def stage_error_fields
            log_progress_def split: option.splits prod.splits)
    with b r lb lr show ?thesis by blast
  qed
qed

lemma floor_quotas_sum: "odd (m::int) \<Longrightarrow> m div 2 + m div 2 = m - 1"
  by presburger

lemma coordinator_quota_one_more:
  assumes "odd m" and "\<bar>m\<bar> < 2 ^ 53"
  shows "ceil_half m = Inr (m div 2 + 1)"
proof -
  from assms(2) have "ceil_half m = Inr ((m + 1) div 2)" by (rule ceil_half_exact)
  moreover from assms(1) have "(m + 1) div 2 = m div 2 + 1" by presburger
  ultimately show ?thesis by simp
qed

text \<open>
  With both sites offering three new items and a total of 5, the Scrape stage takes two
  from each source and the coordinator three.
\<close>

lemma quota_five_scrape_stage:
  "(case scraper_agent demo_world 5 (demo_state\<lparr>max_products := 5\<rparr>) of
      None \<Rightarrow> False
    | Some (state', fs) \<Rightarrow>
        error state' = None \<and> map (length \<circ> snd) (scraped_data state') = [2, 2])"
  by code_simp

lemma quota_five_coordinator:
  "(case scrape_all_products demo_world 5 5 of
      Some (Inr s, fs) \<Rightarrow> breakout_count s = 3 \<and> rastah_count s = 3 \<and> total_scraped s = 5
    | _ \<Rightarrow> False)"
  by code_simp

text \<open>
  Claim C10. The Scrape stage asks each source for \<open>max_products div 2\<close> items, and the
  coordinator is meant to ask for the ceiling of the half, one more for an odd total.
  At the odd total \<open>2 ^ 53 + 1\<close> the coordinator's floating-point division gives
  \<open>2 ^ 52\<close>, which is the quota of the Scrape stage: there the two splits do not
  differ.
\<close>

theorem quotas_coincide_beyond_double:
  "odd (max_products (demo_state\<lparr>max_products := 9007199254740993\<rparr>))
   \<and> max_products (demo_state\<lparr>max_products := 9007199254740993\<rparr>) div 2 = 4503599627370496
   \<and> ceil_half (max_products (demo_state\<lparr>max_products := 9007199254740993\<rparr>))
       = Inr 4503599627370496"
proof -
  have m: "max_products (demo_state\<lparr>max_products := 9007199254740993\<rparr>) = 9007199254740993"
    by simp
  have c: "ceil_half 9007199254740993 = Inr 4503599627370496" by code_simp
  show ?thesis unfolding m using c by simp
qed

section \<open>Properties of the analysis, answer and report stages\<close>

text \<open>
  With fewer than two records in the two per-source files, one of the files holds no
  record, and \<^verbatim>\<open>load_csv_products\<close> raises at the first such file.
\<close>

lemma load_files_empty_first:
  assumes "records_in store p = 0"
  shows "\<exists>x. load_files store (p # rest) acc = Inl x
           \<and> (x \<in> {Exn ValueError (not_found_msg (path_name p)),
                     Exn ValueError (corrupted_msg (path_name p)),
                     Exn ValueError (no_data_msg (path_name p))}
                \<or> store p = Damaged x)"
  using assms by (cases "store p") (auto simp: records_in_def Let_def)

lemma load_files_loaded_first:
  assumes "records_in store p \<noteq> 0"
  shows "\<exists>rows. store p = Content rows \<and> dict_reader rows \<noteq> []
           \<and> load_files store (p # rest) acc = load_files store rest (acc @ dict_reader rows)"
  using assms by (cases "store p") (auto simp: records_in_def Let_def)

lemma load_two_files_insufficient:
  assumes "records_in store p1 + records_in store p2 < 2"
  shows "\<exists>x. load_csv_products store [p1, p2] = Inl x
           \<and> (x \<in> {Exn ValueError (not_found_msg (path_name p1)),
                     Exn ValueError (corrupted_msg (path_name p1)),
                     Exn ValueError (no_data_msg (path_name p1)),
                     Exn ValueError (not_found_msg (path_name p2)),
                     Exn ValueError (corrupted_msg (path_name p2)),
                     Exn ValueError (no_data_msg (path_name p2))}
                \<or> store p1 = Damaged x \<or> store p2 = Damaged x)"
proof (cases "records_in store p1 = 0")
  case True
  from load_files_empty_first [OF True, of "[p2]" "[]"] show ?thesis
    by (auto simp: load_csv_products_def simp del: load_files.simps)
next
  case False
  with assms have z: "records_in store p2 = 0" by simp
  from load_files_loaded_first [OF False, of "[p2]" "[]"] obtain rows where
    "load_files store [p1, p2] [] = load_files store [p2] ([] @ dict_reader rows)" by blast
  with load_files_empty_first [OF z, of "[]" "[] @ dict_reader rows"] show ?thesis
    by (auto simp: load_csv_products_def simp del: load_files.simps)
qed

lemma analysis_agent_load_failure:
  assumes "text_files w analysis_path = Absent"
    and "load_csv_products (csv_files w)
           [''data/breakout_products.csv'', ''data/rastah_products.csv''] = Inl x"
  shows "analysis_agent w state =
           (stage_error ''Analysis'' w
              (log_progress w (state\<lparr>progress_status := ''analyzing''\<rparr>)
                 ''Starting analysis step...'')
              (Exn ValueError (''Failed to complete the analysis process. Error: '' @
                 (if exn_class x = ValueError then str x else unexpected_msg x))),
            text_files w)"
  using assms
  by (simp add: analysis_agent_def path_exists_def run_deep_analysis_def analyze_products_def
       analyze_body_def Let_def)


lemma analysis_agent_without_data:
  assumes "text_files w analysis_path = Absent" and "available_records w < 2"
  shows "\<exists>x detail.
           load_csv_products (csv_files w)
             [''data/breakout_products.csv'', ''data/rastah_products.csv''] = Inl x
         \<and> (x \<in> {Exn ValueError (not_found_msg ''breakout_products.csv''),
                   Exn ValueError (corrupted_msg ''breakout_products.csv''),
                   Exn ValueError (no_data_msg ''breakout_products.csv''),
                   Exn ValueError (not_found_msg ''rastah_products.csv''),
                   Exn ValueError (corrupted_msg ''rastah_products.csv''),
                   Exn ValueError (no_data_msg ''rastah_products.csv'')}
              \<or> csv_files w ''data/breakout_products.csv'' = Damaged x
              \<or> csv_files w ''data/rastah_products.csv'' = Damaged x)
         \<and> detail = (if exn_class x = ValueError then str x else unexpected_msg x)
         \<and> error (fst (analysis_agent w state)) =
               Some (''Analysis agent error: Failed to complete the analysis process. Error: ''
                       @ detail @ ''\<newline>'' @ format_exc w)
         \<and> status (fst (analysis_agent w state)) = ''failed''
         \<and> report (fst (analysis_agent w state)) = report state
         \<and> analysis_results (fst (analysis_agent w state)) = analysis_results state
         \<and> route_next (fst (analysis_agent w state)) = ''end''
         \<and> snd (analysis_agent w state) = text_files w"
proof -
  let ?b = "''data/breakout_products.csv''" and ?r = "''data/rastah_products.csv''"
  have nb: "path_name ?b = ''breakout_products.csv''" by (simp add: path_name_def)
  have nr: "path_name ?r = ''rastah_products.csv''" by (simp add: path_name_def)
  from assms(2) have "records_in (csv_files w) ?b + records_in (csv_files w) ?r < 2"
    by (simp add: available_records_def)
  from load_two_files_insufficient [OF this] obtain x where
    x: "load_csv_products (csv_files w) [?b, ?r] = Inl x"
    and k: "x \<in> {Exn ValueError (not_found_msg ''breakout_products.csv''),
                   Exn ValueError (corrupted_msg ''breakout_products.csv''),
                   Exn ValueError (no_data_msg ''breakout_products.csv''),
                   Exn ValueError (not_found_msg ''rastah_products.csv''),
                   Exn ValueError (corrupted_msg ''rastah_products.csv''),
                   Exn ValueError (no_data_msg ''rastah_products.csv'')}
              \<or> csv_files w ?b = Damaged x \<or> csv_files w ?r = Damaged x"
    unfolding nb nr by blast
  note a = analysis_agent_load_failure [OF assms(1) x, of state]
  let ?d = "if exn_class x = ValueError then str x else unexpected_msg x"
  have e: "error (fst (analysis_agent w state)) =
             Some (''Analysis agent error: Failed to complete the analysis process. Error: ''
                     @ ?d @ ''\<newline>'' @ format_exc w)"
    by (simp add: a stage_error_fields)
  have s: "status (fst (analysis_agent w state)) = ''failed''"
    by (simp add: a stage_error_fields)
  have r: "report (fst (analysis_agent w state)) = report state"
    by (simp add: a stage_error_fields log_progress_def)
  have an: "analysis_results (fst (analysis_agent w state)) = analysis_results state"
    by (simp add: a stage_error_fields log_progress_def)
  have n: "route_next (fst (analysis_agent w state)) = ''end''"
    by (simp add: a route_next_stage_error)
  have t: "snd (analysis_agent w state) = text_files w" by (simp add: a)
  from x k e s r an n t show ?thesis by blast
qed

lemma one_record_available: "available_records one_record_world = 1"
  by code_simp

lemma analysed_available: "available_records analysed_world = 1"
  by code_simp

lemma analysis_agent_skips:
  assumes "text_files w analysis_path = Content content"
  shows "analysis_agent w state =
           ((log_progress w
               (log_progress w (state\<lparr>progress_status := ''analyzing''\<rparr>)
                  ''Starting analysis step...'')
               ''Analysis already exists. Skipping analysis.'')
              \<lparr>analysis_results := content,
               messages := [(''system'', ''Skipped analysis. Loaded existing analysis results.'')]\<rparr>,
            text_files w)"
  using assms by (simp add: analysis_agent_def path_exists_def read_file_def Let_def)

lemma analysis_agent_unreadable:
  assumes "text_files w analysis_path = Damaged x"
  shows "analysis_agent w state =
           (stage_error ''Analysis'' w
              (log_progress w (state\<lparr>progress_status := ''analyzing''\<rparr>)
                 ''Starting analysis step...'') x,
            text_files w)"
  using assms by (simp add: analysis_agent_def path_exists_def read_file_def Let_def)

text \<open>
  Claim C7, amended. When no analysis file exists and the two per-source files hold
  fewer than two records together, the Analyze stage fails: \<open>status\<close> is \<open>failed\<close>,
  \<open>error\<close> is the stage prefix followed by the loader's message for the file without
  records (file not found, file corrupted, file without product data, or the exception
  that reading the file raised: its own text when it is a \<^verbatim>\<open>ValueError\<close>, the text for
  an unexpected error around it otherwise), \<open>report\<close> and \<open>analysis_results\<close> are left
  as they were, nothing is written, and the router returns \<open>end\<close>. When the analysis
  file exists and can be read, the stage skips the analysis, whatever the records are,
  and leaves \<open>status\<close>, \<open>error\<close> and \<open>report\<close> as they were. When it exists and cannot
  be read, the stage fails with the exception of the read.
\<close>

theorem analysis_without_data_fails:
  "(text_files w analysis_path = Absent \<and> available_records w < 2 \<longrightarrow>
      (\<exists>x detail.
           load_csv_products (csv_files w)
             [''data/breakout_products.csv'', ''data/rastah_products.csv''] = Inl x
         \<and> (x \<in> {Exn ValueError (not_found_msg ''breakout_products.csv''),
                   Exn ValueError (corrupted_msg ''breakout_products.csv''),
                   Exn ValueError (no_data_msg ''breakout_products.csv''),
                   Exn ValueError (not_found_msg ''rastah_products.csv''),
                   Exn ValueError (corrupted_msg ''rastah_products.csv''),
                   Exn ValueError (no_data_msg ''rastah_products.csv'')}
              \<or> csv_files w ''data/breakout_products.csv'' = Damaged x
              \<or> csv_files w ''data/rastah_products.csv'' = Damaged x)
         \<and> detail = (if exn_class x = ValueError then str x else unexpected_msg x)
         \<and> error (fst (analysis_agent w state)) =
               Some (''Analysis agent error: Failed to complete the analysis process. Error: ''
                       @ detail @ ''\<newline>'' @ format_exc w)
         \<and> status (fst (analysis_agent w state)) = ''failed''
         \<and> report (fst (analysis_agent w state)) = report state
         \<and> analysis_results (fst (analysis_agent w state)) = analysis_results state
         \<and> route_next (fst (analysis_agent w state)) = ''end''
         \<and> snd (analysis_agent w state) = text_files w))
   \<and> (\<forall>content. text_files w analysis_path = Content content \<longrightarrow>
         analysis_results (fst (analysis_agent w state)) = content
         \<and> status (fst (analysis_agent w state)) = status state
         \<and> error (fst (analysis_agent w state)) = error state
         \<and> report (fst (analysis_agent w state)) = report state
         \<and> snd (analysis_agent w state) = text_files w)
   \<and> (\<forall>x. text_files w analysis_path = Damaged x \<longrightarrow>
         error (fst (analysis_agent w state)) =
           Some (''Analysis agent error: '' @ str x @ ''\<newline>'' @ format_exc w)
         \<and> status (fst (analysis_agent w state)) = ''failed''
         \<and> report (fst (analysis_agent w state)) = report state
         \<and> analysis_results (fst (analysis_agent w state)) = analysis_results state
         \<and> route_next (fst (analysis_agent w state)) = ''end''
         \<and> snd (analysis_agent w state) = text_files w)"
proof (intro conjI allI impI)
  assume "text_files w analysis_path = Absent \<and> available_records w < 2"
  then have "text_files w analysis_path = Absent" and "available_records w < 2" by simp_all
  then show "\<exists>x detail.
           load_csv_products (csv_files w)
             [''data/breakout_products.csv'', ''data/rastah_products.csv''] = Inl x
         \<and> (x \<in> {Exn ValueError (not_found_msg ''breakout_products.csv''),
                   Exn ValueError (corrupted_msg ''breakout_products.csv''),
                   Exn ValueError (no_data_msg ''breakout_products.csv''),
                   Exn ValueError (not_found_msg ''rastah_products.csv''),
                   Exn ValueError (corrupted_msg ''rastah_products.csv''),
                   Exn ValueError (no_data_msg ''rastah_products.csv'')}
              \<or> csv_files w ''data/breakout_products.csv'' = Damaged x
              \<or> csv_files w ''data/rastah_products.csv'' = Damaged x)
         \<and> detail = (if exn_class x = ValueError then str x else unexpected_msg x)
         \<and> error (fst (analysis_agent w state)) =
               Some (''Analysis agent error: Failed to complete the analysis process. Error: ''
                       @ detail @ ''\<newline>'' @ format_exc w)
         \<and> status (fst (analysis_agent w state)) = ''failed''
         \<and> report (fst (analysis_agent w state)) = report state
         \<and> analysis_results (fst (analysis_agent w state)) = analysis_results state
         \<and> route_next (fst (analysis_agent w state)) = ''end''
         \<and> snd (analysis_agent w state) = text_files w"
    by (rule analysis_agent_without_data)
next
  fix content assume c: "text_files w analysis_path = Content content"
  note a = analysis_agent_skips [OF c, of state]
  show "analysis_results (fst (analysis_agent w state)) = content" by (simp add: a)
  show "status (fst (analysis_agent w state)) = status state"
    by (simp add: a log_progress_def)
  show "error (fst (analysis_agent w state)) = error state"
    by (simp add: a log_progress_def)
  show "report (fst (analysis_agent w state)) = report state"
    by (simp add: a log_progress_def)
  show "snd (analysis_agent w state) = text_files w" by (simp add: a)
next
  fix x assume d: "text_files w analysis_path = Damaged x"
  note a = analysis_agent_unreadable [OF d, of state]
  show "error (fst (analysis_agent w state)) =
           Some (''Analysis agent error: '' @ str x @ ''\<newline>'' @ format_exc w)"
    by (simp add: a stage_error_fields)
  show "status (fst (analysis_agent w state)) = ''failed''"
    by (simp add: a stage_error_fields)
  show "report (fst (analysis_agent w state)) = report state"
    by (simp add: a stage_error_fields log_progress_def)
  show "analysis_results (fst (analysis_agent w state)) = analysis_results state"
    by (simp add: a stage_error_fields log_progress_def)
  show "route_next (fst (analysis_agent w state)) = ''end''"
    by (simp add: a route_next_stage_error)
  show "snd (analysis_agent w state) = text_files w" by (simp add: a)
qed

theorem analysis_without_data_fails_witness:
  "text_files one_record_world analysis_path = Absent
   \<and> available_records one_record_world < 2
   \<and> error (fst (analysis_agent one_record_world demo_state)) =
         Some (''Analysis agent error: Failed to complete the analysis process. Error: ''
                 @ no_data_msg ''rastah_products.csv'' @ ''\<newline>''
                 @ format_exc one_record_world)
   \<and> status (fst (analysis_agent one_record_world demo_state)) = ''failed''
   \<and> report (fst (analysis_agent one_record_world demo_state)) = None
   \<and> text_files analysed_world analysis_path = Content ''An earlier analysis.''
   \<and> analysis_results (fst (analysis_agent analysed_world demo_state)) = ''An earlier analysis.''
   \<and> status (fst (analysis_agent analysed_world demo_state)) = ''pending''
   \<and> error (fst (analysis_agent analysed_world demo_state)) = None
   \<and> text_files unreadable_world analysis_path
       = Damaged (Exn OtherError ''[Errno 13] Permission denied'')
   \<and> error (fst (analysis_agent unreadable_world demo_state)) =
         Some (''Analysis agent error: [Errno 13] Permission denied\<newline>''
                 @ format_exc unreadable_world)
   \<and> status (fst (analysis_agent unreadable_world demo_state)) = ''failed''"
proof -
  have h1: "text_files one_record_world analysis_path = Absent"
    by (simp add: one_record_world_def demo_world_def)
  have h2: "available_records one_record_world < 2" by (simp add: one_record_available)
  have l: "load_csv_products (csv_files one_record_world)
             [''data/breakout_products.csv'', ''data/rastah_products.csv'']
           = Inl (Exn ValueError (no_data_msg ''rastah_products.csv''))"
    by code_simp
  have r: "report demo_state = None" and st: "status demo_state = ''pending''"
    and er: "error demo_state = None" by (simp_all add: demo_state_def)
  from analysis_without_data_fails [of one_record_world demo_state] h1 h2 l r
  have a: "error (fst (analysis_agent one_record_world demo_state)) =
         Some (''Analysis agent error: Failed to complete the analysis process. Error: ''
                 @ no_data_msg ''rastah_products.csv'' @ ''\<newline>''
                 @ format_exc one_record_world)
   \<and> status (fst (analysis_agent one_record_world demo_state)) = ''failed''
   \<and> report (fst (analysis_agent one_record_world demo_state)) = None"
    by auto
  have h3: "text_files analysed_world analysis_path = Content ''An earlier analysis.''"
    by (simp add: analysed_world_def)
  from analysis_without_data_fails [of analysed_world demo_state] h3 st er
  have b: "analysis_results (fst (analysis_agent analysed_world demo_state)) = ''An earlier analysis.''
   \<and> status (fst (analysis_agent analysed_world demo_state)) = ''pending''
   \<and> error (fst (analysis_agent analysed_world demo_state)) = None"
    by auto
  have h4: "text_files unreadable_world analysis_path
              = Damaged (Exn OtherError ''[Errno 13] Permission denied'')"
    by (simp add: unreadable_world_def)
  from analysis_without_data_fails [of unreadable_world demo_state] h4
  have c: "error (fst (analysis_agent unreadable_world demo_state)) =
         Some (''Analysis agent error: [Errno 13] Permission denied\<newline>''
                 @ format_exc unreadable_world)
   \<and> status (fst (analysis_agent unreadable_world demo_state)) = ''failed''"
    by auto
  from h1 h2 a h3 b h4 c show ?thesis by (intro conjI) simp_all
qed

text \<open>
  Claim C7 as stated fails. With one record available and an analysis file left by an
  earlier run, the stage skips the analysis and does not fail; and without that file
  the message is the loader's one for the Rastah file, not the text of the test
  \<^verbatim>\<open>len(products) < 2\<close>.
\<close>

theorem analysis_without_data_counterexample:
  "available_records analysed_world = 1
   \<and> status (fst (analysis_agent analysed_world demo_state)) = ''pending''
   \<and> error (fst (analysis_agent analysed_world demo_state)) = None
   \<and> analysis_results (fst (analysis_agent analysed_world demo_state)) = ''An earlier analysis.''
   \<and> available_records one_record_world = 1
   \<and> error (fst (analysis_agent one_record_world demo_state)) =
         Some (''Analysis agent error: Failed to complete the analysis process. Error: '' @
               ''The file rastah_products.csv exists but contains no product data. '' @
               ''This might indicate an issue with the scraping process. '' @
               ''Try running the scraper again to collect fresh data.'' @
               ''\<newline>Traceback (most recent call last)'')"
  by code_simp

text \<open>
  The test \<^verbatim>\<open>len(products) < 2\<close> is reached when a single file with one record is
  analysed, as \<^verbatim>\<open>analyze_products()\<close> does with the latest combined file.
\<close>

lemma single_record_not_enough:
  "fst (analyze_products
         (demo_world\<lparr>csv_files := (\<lambda>path. Content [csv_header, [''Shirt'', ''Rs.100'', ''N/A'', ''Breakout'']])\<rparr>)
         None)
     = Inl (Exn ValueError
         (''Not enough product data for meaningful analysis. '' @
          ''Found only 1 product(s). '' @
          ''Please run the scraper to collect more product data.''))"
  by code_simp

lemma question_logged: "question (log_progress w state message) = question state"
  by (simp add: log_progress_def)

text \<open>
  Claim C8, amended. A failure \<open>e\<close> of the text-generation call is handled at each call
  site in its own way. In \<^verbatim>\<open>analyze_products\<close> it is raised again inside a
  \<^verbatim>\<open>ValueError\<close> with a descriptive message, and the Analyze stage fails with that
  message. In \<^verbatim>\<open>answer_question\<close> it reaches the caller as it is, and the Answer stage
  fails with its text. In \<^verbatim>\<open>generate_report\<close> it is caught and the text
  \<^verbatim>\<open>Error generating report: ...\<close> is the function's ordinary result, no report being
  written, so that the Report stage fails afterwards on reading the missing report
  file. Each part needs the failure of its own call only.
\<close>

theorem generation_failure_by_call_site:
  "(\<forall>paths products.
      load_csv_products (csv_files w) paths = Inr products \<and> 2 \<le> length products
      \<and> llm_invoke w analysis_model (analysis_prompt products) = Inl e \<longrightarrow>
      analyze_products w (Some paths)
        = (Inl (Exn ValueError (model_error_msg e)), text_files w))
   \<and> (\<forall>products state.
        text_files w analysis_path = Absent
        \<and> load_csv_products (csv_files w)
             [''data/breakout_products.csv'', ''data/rastah_products.csv''] = Inr products
        \<and> 2 \<le> length products
        \<and> llm_invoke w analysis_model (analysis_prompt products) = Inl e \<longrightarrow>
        error (fst (analysis_agent w state)) =
          Some (''Analysis agent error: Failed to complete the analysis process. Error: ''
                  @ model_error_msg e @ ''\<newline>'' @ format_exc w)
        \<and> status (fst (analysis_agent w state)) = ''failed'')
   \<and> (\<forall>analysis_context question.
        llm_invoke w qa_model (qa_prompt analysis_context question) = Inl e \<longrightarrow>
        answer_question w (AnswerQuestion analysis_context) question = Inl e)
   \<and> (\<forall>content state.
        text_files w analysis_path = Content content
        \<and> llm_invoke w qa_model (qa_prompt (strip content) (question state)) = Inl e \<longrightarrow>
        error (qa_agent w state) = Some (''QA agent error: '' @ str e @ ''\<newline>'' @ format_exc w)
        \<and> status (qa_agent w state) = ''failed'')
   \<and> (\<forall>content.
        text_files w analysis_path = Content content
        \<and> llm_invoke w report_model (report_prompt (strip content)) = Inl e \<longrightarrow>
        generate_report w = (''Error generating report: '' @ str e, text_files w))
   \<and> (\<forall>content state.
        text_files w analysis_path = Content content \<and> text_files w report_path = Absent
        \<and> llm_invoke w report_model (report_prompt (strip content)) = Inl e \<longrightarrow>
        error (fst (report_agent w state)) =
          Some (''Report agent error: [Errno 2] No such file or directory: ''
                  @ squote report_path @ ''\<newline>'' @ format_exc w)
        \<and> status (fst (report_agent w state)) = ''failed''
        \<and> report (fst (report_agent w state)) = report state)"
proof -
  have a1: "analyze_products w (Some paths)
              = (Inl (Exn ValueError (model_error_msg e)), text_files w)"
    if "load_csv_products (csv_files w) paths = Inr products \<and> 2 \<le> length products
        \<and> llm_invoke w analysis_model (analysis_prompt products) = Inl e"
    for paths products
    using that by (simp add: analyze_products_def analyze_body_def)
  have a2: "error (fst (analysis_agent w state)) =
              Some (''Analysis agent error: Failed to complete the analysis process. Error: ''
                      @ model_error_msg e @ ''\<newline>'' @ format_exc w)
            \<and> status (fst (analysis_agent w state)) = ''failed''"
    if "text_files w analysis_path = Absent
        \<and> load_csv_products (csv_files w)
             [''data/breakout_products.csv'', ''data/rastah_products.csv''] = Inr products
        \<and> 2 \<le> length products
        \<and> llm_invoke w analysis_model (analysis_prompt products) = Inl e"
    for products state
    using that
    by (simp add: analysis_agent_def path_exists_def run_deep_analysis_def Let_def
          analyze_products_def analyze_body_def stage_error_fields)
  have q1: "answer_question w (AnswerQuestion analysis_context) question = Inl e"
    if "llm_invoke w qa_model (qa_prompt analysis_context question) = Inl e"
    for analysis_context question
    using that by simp
  have q2: "error (qa_agent w state) = Some (''QA agent error: '' @ str e @ ''\<newline>'' @ format_exc w)
            \<and> status (qa_agent w state) = ''failed''"
    if "text_files w analysis_path = Content content
        \<and> llm_invoke w qa_model (qa_prompt (strip content) (question state)) = Inl e"
    for content state
    using that
    by (simp add: qa_agent_def qa_chatbot_def Let_def question_logged stage_error_fields)
  have r1: "generate_report w = (''Error generating report: '' @ str e, text_files w)"
    if "text_files w analysis_path = Content content
        \<and> llm_invoke w report_model (report_prompt (strip content)) = Inl e" for content
    using that by (simp add: generate_report_def)
  have r2: "error (fst (report_agent w state)) =
              Some (''Report agent error: [Errno 2] No such file or directory: ''
                      @ squote report_path @ ''\<newline>'' @ format_exc w)
            \<and> status (fst (report_agent w state)) = ''failed''
            \<and> report (fst (report_agent w state)) = report state"
    if "text_files w analysis_path = Content content \<and> text_files w report_path = Absent
        \<and> llm_invoke w report_model (report_prompt (strip content)) = Inl e"
    for content state
    using that r1 [of content]
    by (simp add: report_agent_def path_exists_def read_file_def Let_def stage_error_fields
          log_progress_def)
  from a1 a2 q1 q2 r1 r2 show ?thesis by blast
qed

lemma two_records_load:
  "load_csv_products two_record_files
     [''data/breakout_products.csv'', ''data/rastah_products.csv'']
   = Inr [(csv_header, [''Shirt'', ''Rs.100'', ''N/A'', ''Breakout'']),
          (csv_header, [''Kurta'', ''Rs.200'', ''N/A'', ''Rastah''])]"
  by code_simp

lemma report_outage_answers:
  "answer_question report_outage_world (AnswerQuestion ''An earlier analysis.'')
     ''Which site is cheaper?'' = Inr ''Breakout is cheaper.''"
  by code_simp

theorem generation_failure_by_call_site_witness:
  "fst (analyze_products analysis_outage_world
          (Some [''data/breakout_products.csv'', ''data/rastah_products.csv'']))
     = Inl (Exn ValueError (model_error_msg rate_limit))
   \<and> error (fst (analysis_agent analysis_outage_world demo_state)) =
       Some (''Analysis agent error: Failed to complete the analysis process. Error: ''
               @ model_error_msg rate_limit @ ''\<newline>'' @ format_exc analysis_outage_world)
   \<and> status (fst (analysis_agent analysis_outage_world demo_state)) = ''failed''
   \<and> answer_question offline_world (AnswerQuestion ''An earlier analysis.'')
        ''Which site is cheaper?'' = Inl rate_limit
   \<and> error (qa_agent offline_world demo_state) =
       Some (''QA agent error: '' @ str rate_limit @ ''\<newline>'' @ format_exc offline_world)
   \<and> status (qa_agent offline_world demo_state) = ''failed''
   \<and> answer_question report_outage_world (AnswerQuestion ''An earlier analysis.'')
        ''Which site is cheaper?'' = Inr ''Breakout is cheaper.''
   \<and> generate_report report_outage_world
       = (''Error generating report: '' @ str rate_limit, text_files report_outage_world)
   \<and> error (fst (report_agent report_outage_world demo_state)) =
       Some (''Report agent error: [Errno 2] No such file or directory: ''
               @ squote report_path @ ''\<newline>'' @ format_exc report_outage_world)
   \<and> status (fst (report_agent report_outage_world demo_state)) = ''failed''"
proof -
  let ?paths = "[''data/breakout_products.csv'', ''data/rastah_products.csv'']"
  let ?products = "[(csv_header, [''Shirt'', ''Rs.100'', ''N/A'', ''Breakout'']),
                    (csv_header, [''Kurta'', ''Rs.200'', ''N/A'', ''Rastah''])]"
  have al: "load_csv_products (csv_files analysis_outage_world) ?paths = Inr ?products"
    using two_records_load by (simp add: analysis_outage_world_def)
  have an: "(2::nat) \<le> length ?products" by simp
  have ai: "llm_invoke analysis_outage_world analysis_model (analysis_prompt ?products)
              = Inl rate_limit"
    by (simp add: analysis_outage_world_def)
  have aa: "text_files analysis_outage_world analysis_path = Absent"
    by (simp add: analysis_outage_world_def demo_world_def)
  note A = generation_failure_by_call_site [of analysis_outage_world rate_limit]
  from A al an ai
  have a1: "analyze_products analysis_outage_world (Some ?paths)
              = (Inl (Exn ValueError (model_error_msg rate_limit)),
                 text_files analysis_outage_world)"
    by blast
  from A aa al an ai
  have a2: "error (fst (analysis_agent analysis_outage_world demo_state)) =
       Some (''Analysis agent error: Failed to complete the analysis process. Error: ''
               @ model_error_msg rate_limit @ ''\<newline>'' @ format_exc analysis_outage_world)
   \<and> status (fst (analysis_agent analysis_outage_world demo_state)) = ''failed''"
    by blast
  have qi: "llm_invoke offline_world qa_model prompt = Inl rate_limit" for prompt
    by (simp add: offline_world_def)
  have qt: "text_files offline_world analysis_path = Content ''An earlier analysis.''"
    by (simp add: offline_world_def)
  note Q = generation_failure_by_call_site [of offline_world rate_limit]
  from Q qi
  have q1: "answer_question offline_world (AnswerQuestion ''An earlier analysis.'')
              ''Which site is cheaper?'' = Inl rate_limit"
    by blast
  from Q qt qi
  have q2: "error (qa_agent offline_world demo_state) =
       Some (''QA agent error: '' @ str rate_limit @ ''\<newline>'' @ format_exc offline_world)
   \<and> status (qa_agent offline_world demo_state) = ''failed''"
    by blast
  have ri: "llm_invoke report_outage_world report_model prompt = Inl rate_limit" for prompt
    by (simp add: report_outage_world_def)
  have rt: "text_files report_outage_world analysis_path = Content ''An earlier analysis.''"
    by (simp add: report_outage_world_def)
  have rr: "text_files report_outage_world report_path = Absent"
    by (simp add: report_outage_world_def report_path_def analysis_path_def)
  note R = generation_failure_by_call_site [of report_outage_world rate_limit]
  from R rt ri
  have r1: "generate_report report_outage_world
       = (''Error generating report: '' @ str rate_limit, text_files report_outage_world)"
    by blast
  from R rt rr ri
  have r2: "error (fst (report_agent report_outage_world demo_state)) =
       Some (''Report agent error: [Errno 2] No such file or directory: ''
               @ squote report_path @ ''\<newline>'' @ format_exc report_outage_world)
   \<and> status (fst (report_agent report_outage_world demo_state)) = ''failed''"
    by blast
  from a1 have a1': "fst (analyze_products analysis_outage_world (Some ?paths))
     = Inl (Exn ValueError (model_error_msg rate_limit))" by simp
  from a1' a2 q1 q2 report_outage_answers r1 r2 show ?thesis by (intro conjI) simp_all
qed

text \<open>
  Claim C8 as stated fails at the Report call site: the failure of the text generation
  comes back from \<^verbatim>\<open>generate_report\<close> as an ordinary string.
\<close>

theorem generation_failure_counterexample:
  "llm_invoke offline_world report_model (report_prompt (strip ''An earlier analysis.''))
     = Inl (Exn OtherError ''Error code: 429'')
   \<and> fst (generate_report offline_world) = ''Error generating report: Error code: 429''"
  by code_simp

end
